theory Spec2Isabelle
  imports Complex_Main "HOL-Library.AList" "HOL-Library.Multiset" "HOL-Library.Option_ord"
    "HOL-Library.Char_ord" "HOL-Library.List_Lexorder"
begin

section \<open>LIPA-360: the data pipeline of app.py and the views of visualizations.py\<close>

text \<open>
  The program reads a spreadsheet into a pandas DataFrame, derives the columns
  \<open>Day\<close>, \<open>Region\<close> and the cleaned \<open>LIPA EX33 FZ / ExtDlvID\<close> and
  \<open>Reason code desc.\<close>, keeps the rows older than ten days, splits them by region
  and renders summary views per region.  A DataFrame is modelled as an ordered list of
  column names with a list of rows; a row is an association list from column name to
  cell.  The library routines whose code is not part of the repository
  (\<open>pd.read_excel\<close>, the date parser behind \<open>pd.to_datetime\<close>, the sorting
  routine behind \<open>sort_values\<close>, the clock) are parameters of the model.
\<close>

subsection \<open>Cells, timestamps and their text form\<close>

text \<open>
  A pandas \<open>Timestamp\<close>: a civil date, the nanoseconds since midnight and, for a
  time-zone-aware timestamp, the offset of its zone from UTC in seconds (\<open>None\<close> for
  a naive one).
\<close>

record timestamp =
  year :: int
  month :: int
  day :: int
  nanos :: int
  utc_offset :: "int option"

text \<open>
  The values a cell of the frame can hold: the two nulls of an object column
  (\<open>NaN\<close> for an empty spreadsheet cell, Python's \<open>None\<close> as returned by
  \<open>clean_lipa\<close>), text, a number, a timestamp or the null timestamp \<open>NaT\<close>.
\<close>

datatype cell = NaN | PyNone | Str string | Num int | Time timestamp | NaT

text \<open>\<open>pd.notna\<close>: everything but the three nulls.\<close>

fun notna :: "cell \<Rightarrow> bool" where
  "notna NaN = False"
| "notna PyNone = False"
| "notna NaT = False"
| "notna _ = True"

text \<open>Days since 1970-01-01 of a civil date (proleptic Gregorian calendar).\<close>

definition days_from_civil :: "int \<Rightarrow> int \<Rightarrow> int \<Rightarrow> int" where
  "days_from_civil y m d =
     (let y' = (if m \<le> 2 then y - 1 else y);
          era = y' div 400;
          yoe = y' - era * 400;
          doy = (153 * (if m > 2 then m - 3 else m + 9) + 2) div 5 + d - 1;
          doe = yoe * 365 + yoe div 4 - yoe div 100 + doy
      in era * 146097 + doe - 719468)"

definition ns_per_day :: int where
  "ns_per_day = 86400000000000"

text \<open>Nanoseconds since the epoch; an aware timestamp counts from its instant in UTC.\<close>

definition epoch_ns :: "timestamp \<Rightarrow> int" where
  "epoch_ns t =
     days_from_civil (year t) (month t) (day t) * ns_per_day + nanos t -
     (case utc_offset t of None \<Rightarrow> 0 | Some s \<Rightarrow> s * 1000000000)"

text \<open>
  The subtraction \<open>a - b\<close> of two timestamp columns raises where the library cannot
  form the difference: \<open>TypeError\<close> when one operand is time-zone-aware and the other
  naive, \<open>OverflowError\<close> when the difference in nanoseconds does not fit in 64 bits.
\<close>

fun tz_mismatch :: "cell \<Rightarrow> cell \<Rightarrow> bool" where
  "tz_mismatch (Time a) (Time b) = ((utc_offset a = None) \<noteq> (utc_offset b = None))"
| "tz_mismatch _ _ = False"

definition int64_max :: int where
  "int64_max = 9223372036854775807"

fun sub_overflows :: "cell \<Rightarrow> cell \<Rightarrow> bool" where
  "sub_overflows (Time a) (Time b) =
     (epoch_ns a - epoch_ns b < - int64_max - 1 \<or> int64_max < epoch_ns a - epoch_ns b)"
| "sub_overflows _ _ = False"

text \<open>
  \<open>(a - b).dt.days\<close>, where the subtraction does not raise: the \<open>days\<close> component
  of a \<open>Timedelta\<close> is the floor of the difference in days; a null operand gives a null.
\<close>

fun timedelta_days :: "cell \<Rightarrow> cell \<Rightarrow> cell" where
  "timedelta_days (Time a) (Time b) = Num ((epoch_ns a - epoch_ns b) div ns_per_day)"
| "timedelta_days _ _ = NaN"

text \<open>
  \<open>datetime.today().date()\<close> turned into a timestamp: midnight of that day, without
  a time zone.
\<close>

definition date_of :: "timestamp \<Rightarrow> timestamp" where
  "date_of t = t\<lparr>nanos := 0, utc_offset := None\<rparr>"

text \<open>Decimal digits, zero padding and Python's \<open>str\<close> of an integer.\<close>

definition digit_char :: "nat \<Rightarrow> char" where
  "digit_char n = char_of (48 + n mod 10)"

fun digits :: "nat \<Rightarrow> string" where
  "digits n = (if n < 10 then [digit_char n] else digits (n div 10) @ [digit_char n])"

definition str_int :: "int \<Rightarrow> string" where
  "str_int i = (if i < 0 then CHR ''-'' # digits (nat (- i)) else digits (nat i))"

definition zpad :: "nat \<Rightarrow> int \<Rightarrow> string" where
  "zpad w i = (let s = digits (nat i) in replicate (w - length s) CHR ''0'' @ s)"

text \<open>
  \<open>str\<close> of a \<open>Timestamp\<close> (its ISO format with a space): the fraction of a second
  is printed with six digits when it is a whole number of microseconds, with nine
  otherwise, and left out when it is zero; an aware timestamp ends with its offset.
\<close>

definition str_timestamp :: "timestamp \<Rightarrow> string" where
  "str_timestamp t =
     (let secs = nanos t div 1000000000;
          frac = nanos t mod 1000000000
      in zpad 4 (year t) @ ''-'' @ zpad 2 (month t) @ ''-'' @ zpad 2 (day t) @ '' '' @
         zpad 2 (secs div 3600) @ '':'' @ zpad 2 (secs div 60 mod 60) @ '':'' @
         zpad 2 (secs mod 60) @
         (if frac = 0 then ''''
          else if frac mod 1000 = 0 then ''.'' @ zpad 6 (frac div 1000)
          else ''.'' @ zpad 9 frac) @
         (case utc_offset t of
            None \<Rightarrow> ''''
          | Some s \<Rightarrow>
              (if s < 0 then ''-'' else ''+'') @ zpad 2 (\<bar>s\<bar> div 3600) @ '':'' @
              zpad 2 (\<bar>s\<bar> div 60 mod 60)))"

text \<open>
  Python's \<open>str(x)\<close>, which is also what \<open>astype(str)\<close> does to each element of an
  object column: \<open>None\<close> becomes the text \<open>None\<close> and \<open>NaN\<close> the text \<open>nan\<close>.
\<close>

fun astype_str :: "cell \<Rightarrow> string" where
  "astype_str NaN = ''nan''"
| "astype_str PyNone = ''None''"
| "astype_str NaT = ''NaT''"
| "astype_str (Str s) = s"
| "astype_str (Num i) = str_int i"
| "astype_str (Time t) = str_timestamp t"

subsection \<open>String tests\<close>

text \<open>\<open>s.startswith(p)\<close>.\<close>

fun startswith :: "string \<Rightarrow> string \<Rightarrow> bool" where
  "startswith s [] = True"
| "startswith [] (p # ps) = False"
| "startswith (c # s) (p # ps) = (c = p \<and> startswith s ps)"

text \<open>\<open>p in s\<close>: \<open>p\<close> occurs in \<open>s\<close> as a contiguous substring.\<close>

fun contains :: "string \<Rightarrow> string \<Rightarrow> bool" where
  "contains [] p = (p = [])"
| "contains (c # s) p = (startswith (c # s) p \<or> contains s p)"

text \<open>Case folding of the ASCII letters, for a search with \<open>case=False\<close>.\<close>

definition lower_char :: "char \<Rightarrow> char" where
  "lower_char c =
     (if (65::nat) \<le> of_char c \<and> of_char c \<le> (90::nat) then char_of (of_char c + (32::nat)) else c)"

definition contains_nocase :: "string \<Rightarrow> string \<Rightarrow> bool" where
  "contains_nocase s p = contains (map lower_char s) (map lower_char p)"

subsection \<open>Frames\<close>

type_synonym row = "(string \<times> cell) list"

record frame =
  columns :: "string list"
  rows :: "row list"

text \<open>
  The exceptions the pipeline can meet; \<open>process_data\<close> catches every exception and
  reports it as a message.
\<close>

datatype exn = ReadFailure string | KeyError "string list" | TypeError | OverflowError

text \<open>\<open>pd.DataFrame()\<close>: no columns, no rows.\<close>

definition empty_frame :: frame where
  "empty_frame = \<lparr>columns = [], rows = []\<rparr>"

text \<open>\<open>df.empty\<close>: one of the two axes has length zero.\<close>

definition is_empty :: "frame \<Rightarrow> bool" where
  "is_empty df = (columns df = [] \<or> rows df = [])"

text \<open>\<open>row.get(c)\<close>: the cell under \<open>c\<close>, Python's \<open>None\<close> when there is none.\<close>

definition get :: "row \<Rightarrow> string \<Rightarrow> cell" where
  "get r c = (case map_of r c of Some v \<Rightarrow> v | None \<Rightarrow> PyNone)"

text \<open>
  \<open>df[c] = f(row)\<close> for every row: an element-wise column assignment.  An existing
  column keeps its place, a new one is appended.
\<close>

definition assign :: "string \<Rightarrow> (row \<Rightarrow> cell) \<Rightarrow> frame \<Rightarrow> frame" where
  "assign c f df =
     \<lparr>columns = (if c \<in> set (columns df) then columns df else columns df @ [c]),
      rows = map (\<lambda>r. AList.update c (f r) r) (rows df)\<rparr>"

text \<open>\<open>df[mask]\<close>: the rows that satisfy the mask, in order.\<close>

definition select :: "(row \<Rightarrow> bool) \<Rightarrow> frame \<Rightarrow> frame" where
  "select p df = df\<lparr>rows := filter p (rows df)\<rparr>"

text \<open>\<open>df[c]\<close>: the cells of a column, row by row.\<close>

definition column :: "string \<Rightarrow> frame \<Rightarrow> cell list" where
  "column c df = map (\<lambda>r. get r c) (rows df)"

text \<open>
  The exception that the subtraction of two timestamp columns raises, if any: the zones
  are checked before the differences are formed.
\<close>

definition subtract_error :: "cell list \<Rightarrow> cell list \<Rightarrow> exn option" where
  "subtract_error xs ys =
     (if list_ex (\<lambda>(a, b). tz_mismatch a b) (zip xs ys) then Some TypeError
      else if list_ex (\<lambda>(a, b). sub_overflows a b) (zip xs ys) then Some OverflowError
      else None)"

text \<open>
  \<open>pd.read_excel(_, dtype=str)\<close> delivers every cell as text, or as a null where the
  spreadsheet cell is empty.
\<close>

fun text_or_null :: "cell \<Rightarrow> bool" where
  "text_or_null (Num i) = False"
| "text_or_null (Time t) = False"
| "text_or_null _ = True"

subsection \<open>app.py: \<open>process_data\<close>\<close>

abbreviation (input) CREATED_ON :: string where
  "CREATED_ON \<equiv> ''LIPA Created On''"

abbreviation (input) EXT_ID :: string where
  "EXT_ID \<equiv> ''LIPA EX33 FZ / ExtDlvID''"

abbreviation (input) REASON :: string where
  "REASON \<equiv> ''Reason code desc.''"

abbreviation (input) STATUS :: string where
  "STATUS \<equiv> ''Combined Status''"

text \<open>
  \<open>pd.to_datetime(x, errors='coerce')\<close> on one cell: a timestamp, or \<open>NaT\<close> where
  the library's parser (the parameter \<open>parse\<close>) finds no date.
\<close>

definition to_datetime :: "(cell \<Rightarrow> timestamp option) \<Rightarrow> cell \<Rightarrow> cell" where
  "to_datetime parse c = (case parse c of Some t \<Rightarrow> Time t | None \<Rightarrow> NaT)"

text \<open>
  \<^verbatim>\<open>
  def clean_lipa(row):
      if pd.notna(row.get('Combined Status')) and "GSS Classic" in str(row['Combined Status']):
          return "GSS classic"
      return str(row.get('LIPA EX33 FZ / ExtDlvID')) if pd.notna(row.get('LIPA EX33 FZ / ExtDlvID')) else None
  \<close>
\<close>

definition clean_lipa :: "row \<Rightarrow> cell" where
  "clean_lipa r =
     (if notna (get r STATUS) \<and> contains (astype_str (get r STATUS)) ''GSS Classic''
      then Str ''GSS classic''
      else if notna (get r EXT_ID) then Str (astype_str (get r EXT_ID)) else PyNone)"

text \<open>\<open>.astype(str).str.startswith('7').map({True: 'USA', False: 'Germany'})\<close> on one cell.\<close>

definition region_of :: "cell \<Rightarrow> cell" where
  "region_of c = (if startswith (astype_str c) ''7'' then Str ''USA'' else Str ''Germany'')"

text \<open>\<open>.fillna(v)\<close> and \<open>.replace(a, b)\<close> on one cell.\<close>

definition fillna :: "cell \<Rightarrow> cell \<Rightarrow> cell" where
  "fillna v c = (if notna c then c else v)"

definition replace_value :: "cell \<Rightarrow> cell \<Rightarrow> cell \<Rightarrow> cell" where
  "replace_value a b c = (if c = a then b else c)"

text \<open>\<open>x > n\<close> on one cell of a numeric column: a null compares false.\<close>

fun gt :: "cell \<Rightarrow> int \<Rightarrow> bool" where
  "gt (Num d) n = (d > n)"
| "gt _ n = False"

text \<open>
  Lines 55 to 67 of \<open>process_data\<close>, one column assignment per line:
  \<^verbatim>\<open>
  df['LIPA Created On'] = pd.to_datetime(df['LIPA Created On'], errors='coerce')
  df['Today'] = pd.to_datetime(datetime.today().date())
  df['Day'] = (df['Today'] - df['LIPA Created On']).dt.days
  df['LIPA EX33 FZ / ExtDlvID'] = df.apply(clean_lipa, axis=1)
  df['Region'] = df['LIPA EX33 FZ / ExtDlvID'].astype(str).str.startswith('7')
                     .map({True: 'USA', False: 'Germany'})
  df['Reason code desc.'] = df['Reason code desc.'].fillna("").replace("", "GSS classic")
  df.loc[df['Reason code desc.'] == 'GSS classic', 'LIPA EX33 FZ / ExtDlvID'] = ""
  \<close>
  Reading a column that the frame does not have raises \<open>KeyError\<close>, and the
  subtraction of the third line raises as \<open>subtract_error\<close> says.
\<close>

definition derive_columns :: "(cell \<Rightarrow> timestamp option) \<Rightarrow> timestamp \<Rightarrow> frame \<Rightarrow> exn + frame" where
  "derive_columns parse now df =
     (if CREATED_ON \<notin> set (columns df) then Inl (KeyError [CREATED_ON])
      else
        let df1 = assign CREATED_ON (\<lambda>r. to_datetime parse (get r CREATED_ON)) df;
            df2 = assign ''Today'' (\<lambda>r. Time (date_of now)) df1
        in case subtract_error (column ''Today'' df2) (column CREATED_ON df2) of
             Some e \<Rightarrow> Inl e
           | None \<Rightarrow>
               let df3 = assign ''Day'' (\<lambda>r. timedelta_days (get r ''Today'') (get r CREATED_ON)) df2;
                   df4 = assign EXT_ID clean_lipa df3;
                   df5 = assign ''Region'' (\<lambda>r. region_of (get r EXT_ID)) df4
               in if REASON \<notin> set (columns df5) then Inl (KeyError [REASON])
                  else
                    let df6 = assign REASON
                          (\<lambda>r. replace_value (Str []) (Str ''GSS classic'')
                                 (fillna (Str []) (get r REASON))) df5;
                        df7 = assign EXT_ID
                          (\<lambda>r. if get r REASON = Str ''GSS classic'' then Str [] else get r EXT_ID) df6
                    in Inr df7)"

text \<open>
  The same seven assignments seen from one row: what lines 55 to 67 make of the row
  \<open>r\<close> of the frame that was read, when they raise nothing.
\<close>

definition derive_row :: "(cell \<Rightarrow> timestamp option) \<Rightarrow> timestamp \<Rightarrow> row \<Rightarrow> row" where
  "derive_row parse now r =
     (let r1 = AList.update CREATED_ON (to_datetime parse (get r CREATED_ON)) r;
          r2 = AList.update ''Today'' (Time (date_of now)) r1;
          r3 = AList.update ''Day'' (timedelta_days (get r2 ''Today'') (get r2 CREATED_ON)) r2;
          r4 = AList.update EXT_ID (clean_lipa r3) r3;
          r5 = AList.update ''Region'' (region_of (get r4 EXT_ID)) r4;
          r6 = AList.update REASON
                 (replace_value (Str []) (Str ''GSS classic'') (fillna (Str []) (get r5 REASON))) r5
      in AList.update EXT_ID
           (if get r6 REASON = Str ''GSS classic'' then Str [] else get r6 EXT_ID) r6)"

text \<open>
  The exception of the third assignment in terms of the frame that was read: \<open>Today\<close>
  is the same naive timestamp in every row, \<open>LIPA Created On\<close> the parsed date.
\<close>

definition day_error :: "(cell \<Rightarrow> timestamp option) \<Rightarrow> timestamp \<Rightarrow> frame \<Rightarrow> exn option" where
  "day_error parse now df =
     subtract_error (map (\<lambda>r. Time (date_of now)) (rows df))
       (map (\<lambda>r. to_datetime parse (get r CREATED_ON)) (rows df))"

definition required_cols :: "string list" where
  "required_cols =
     [EXT_ID, CREATED_ON, ''Day'',
      ''LIPA No. / Delivery'', ''Process status'', REASON,
      ''Customer Ref. Ord.No.'', ''Material number'', ''Material Description'',
      ''Delivery Quantity'', ''Model series'']"

text \<open>\<open>df[cols]\<close> on one row: the cells of the listed columns, in that order.\<close>

definition project :: "string list \<Rightarrow> row \<Rightarrow> row" where
  "project cs r = map (\<lambda>c. (c, get r c)) cs"

text \<open>
  The sort behind \<open>sort_values(by=c, ascending=False)\<close> is a parameter.  The call
  leaves the sorting algorithm at the library's default, \<open>kind='quicksort'\<close>, which the
  library does not document as stable, so the model relies on the documented result
  only: the same rows, in descending order of the numeric column \<open>c\<close>, nulls last
  (\<open>None\<close> is the least key).  The order of rows with equal keys is not fixed.
\<close>

fun numeric_key :: "cell \<Rightarrow> int option" where
  "numeric_key (Num d) = Some d"
| "numeric_key _ = None"

definition sorts_descending :: "(string \<Rightarrow> row list \<Rightarrow> row list) \<Rightarrow> bool" where
  "sorts_descending sort_values \<longleftrightarrow>
     (\<forall>by rs. mset (sort_values by rs) = mset rs \<and>
        sorted_wrt (\<lambda>a b. numeric_key (get b by) \<le> numeric_key (get a by)) (sort_values by rs))"

text \<open>
  Two sorting routines that meet this contract.  The first keeps rows with equal keys in
  their input order (what the library does for \<open>kind='stable'\<close>: reverse, sort
  ascending with a stable sort, reverse); the second reverses them.
\<close>

definition sort_values_stable :: "string \<Rightarrow> row list \<Rightarrow> row list" where
  "sort_values_stable by rs = rev (sort_key (\<lambda>r. numeric_key (get r by)) (rev rs))"

definition sort_values_reversing :: "string \<Rightarrow> row list \<Rightarrow> row list" where
  "sort_values_reversing by rs = rev (sort_key (\<lambda>r. numeric_key (get r by)) rs)"

text \<open>
  \<^verbatim>\<open>
  def prepare_df(region_df):
      region_df = region_df[required_cols].copy()
      region_df = region_df.sort_values(by='Day', ascending=False).reset_index(drop=True)
      region_df.insert(0, 'Sr No.', range(1, len(region_df) + 1))
      return region_df
  \<close>
  The parameter \<open>sort_values\<close> is the library's sort of the rows by a column in
  descending order, called with its default sorting algorithm.
\<close>

definition insert_sr_no :: "row list \<Rightarrow> row list" where
  "insert_sr_no rs = map2 (\<lambda>i r. (''Sr No.'', Num (int i)) # r) [1..<Suc (length rs)] rs"

definition prepare_df :: "(string \<Rightarrow> row list \<Rightarrow> row list) \<Rightarrow> frame \<Rightarrow> exn + frame" where
  "prepare_df sort_values region_df =
     (case filter (\<lambda>c. c \<notin> set (columns region_df)) required_cols of
        [] \<Rightarrow>
          (let rs = sort_values ''Day'' (map (project required_cols) (rows region_df))
           in Inr \<lparr>columns = ''Sr No.'' # required_cols, rows = insert_sr_no rs\<rparr>)
      | missing \<Rightarrow> Inl (KeyError missing))"

text \<open>
  \<open>prepare_df(df[df['Region'] == name]) if name in df['Region'].values else pd.DataFrame()\<close>
\<close>

definition region_frame :: "(string \<Rightarrow> row list \<Rightarrow> row list) \<Rightarrow> frame \<Rightarrow> string \<Rightarrow> exn + frame" where
  "region_frame sort_values df name =
     (if Str name \<in> set (map (\<lambda>r. get r ''Region'') (rows df))
      then prepare_df sort_values (select (\<lambda>r. get r ''Region'' = Str name) df)
      else Inr empty_frame)"

text \<open>
  \<open>process_data\<close>: \<open>Inr (usa_df, germany_df)\<close> stands for the returned
  \<open>(True, usa_df, germany_df)\<close> and \<open>Inl e\<close> for \<open>(False, str(e), None)\<close>.
  \<open>read_excel\<close> is \<open>pd.read_excel(_, dtype=str)\<close> and \<open>now\<close> the clock's
  \<open>datetime.today()\<close>.
\<close>

definition process_data ::
  "('f \<Rightarrow> exn + frame) \<Rightarrow> (cell \<Rightarrow> timestamp option) \<Rightarrow> (string \<Rightarrow> row list \<Rightarrow> row list) \<Rightarrow>
   timestamp \<Rightarrow> 'f \<Rightarrow> exn + frame \<times> frame" where
  "process_data read_excel parse sort_values now uploaded_file =
     (case read_excel uploaded_file of
        Inl e \<Rightarrow> Inl e
      | Inr df0 \<Rightarrow>
          (case derive_columns parse now df0 of
             Inl e \<Rightarrow> Inl e
           | Inr df1 \<Rightarrow>
               (let df = select (\<lambda>r. gt (get r ''Day'') 10) df1
                in case region_frame sort_values df ''USA'' of
                     Inl e \<Rightarrow> Inl e
                   | Inr usa_df \<Rightarrow>
                       (case region_frame sort_values df ''Germany'' of
                          Inl e \<Rightarrow> Inl e
                        | Inr germany_df \<Rightarrow> Inr (usa_df, germany_df)))))"

subsection \<open>visualizations.py: the views\<close>

text \<open>
  A view is called with the partition's frame \<open>df\<close>, a Python object shared with the
  caller.  Its model returns what the view computes for the page (nothing for an empty
  frame) together with the frame as the call leaves it, so that an assignment to a column
  of \<open>df\<close> inside the view is visible in the result.  A view that reads a column the
  frame does not have raises \<open>KeyError\<close>.
\<close>

text \<open>The columns of \<open>cs\<close> that the frame lacks, in the order the view reads them.\<close>

definition missing_columns :: "string list \<Rightarrow> frame \<Rightarrow> string list" where
  "missing_columns cs df = filter (\<lambda>c. c \<notin> set (columns df)) cs"

record kpi =
  total_lipas :: nat
  lipas_30_days :: nat
  lipas_60_days :: nat
  closed_this_month :: nat
  avg_aging_days :: "rat option"

text \<open>\<open>.dt.month == m\<close> on one cell: a null timestamp compares false.\<close>

fun dt_month_is :: "cell \<Rightarrow> int \<Rightarrow> bool" where
  "dt_month_is (Time t) m = (month t = m)"
| "dt_month_is _ m = False"

text \<open>\<open>.astype(str).str.contains('closed|completed', case=False, na=False)\<close> on one cell.\<close>

definition status_closed :: "cell \<Rightarrow> bool" where
  "status_closed c =
     (contains_nocase (astype_str c) ''closed'' \<or> contains_nocase (astype_str c) ''completed'')"

text \<open>\<open>.mean()\<close> of a numeric column: the nulls are skipped; no number, no mean.\<close>

definition mean :: "cell list \<Rightarrow> rat option" where
  "mean cs =
     (let ds = [d. Num d \<leftarrow> cs]
      in if ds = [] then None else Some (of_int (sum_list ds) / of_int (int (length ds))))"

text \<open>
  \<^verbatim>\<open>
  def create_kpi_cards(df, region_name):
      if df.empty:
          return None
      total_lipas = len(df)
      lipas_30_days = len(df[df['Day'] > 30])
      lipas_60_days = len(df[df['Day'] > 60])
      current_month = datetime.now().month
      current_year = datetime.now().year
      this_month = df[df['LIPA Created On'].dt.month == current_month]
      closed_this_month = len(this_month[this_month['Process status'].astype(str)
                                  .str.contains('closed|completed', case=False, na=False)])
      avg_aging_days = df['Day'].mean()
  \<close>
  \<open>current_year\<close> is computed and not used afterwards.
\<close>

definition create_kpi_cards :: "timestamp \<Rightarrow> frame \<Rightarrow> exn + kpi option \<times> frame" where
  "create_kpi_cards now df =
     (if is_empty df then Inr (None, df)
      else case missing_columns [''Day'', CREATED_ON, ''Process status''] df of
        c # cs \<Rightarrow> Inl (KeyError [c])
      | [] \<Rightarrow>
          (let current_month = month now;
               current_year = year now;
               this_month = filter (\<lambda>r. dt_month_is (get r CREATED_ON) current_month) (rows df)
           in Inr (Some \<lparr>total_lipas = length (rows df),
                          lipas_30_days = length (filter (\<lambda>r. gt (get r ''Day'') 30) (rows df)),
                          lipas_60_days = length (filter (\<lambda>r. gt (get r ''Day'') 60) (rows df)),
                          closed_this_month =
                            length (filter (\<lambda>r. status_closed (get r ''Process status'')) this_month),
                          avg_aging_days = mean (map (\<lambda>r. get r ''Day'') (rows df))\<rparr>,
                   df)))"

text \<open>The civil date of a day number, and the Monday that starts the day's week.\<close>

definition civil_from_days :: "int \<Rightarrow> timestamp" where
  "civil_from_days z0 =
     (let z = z0 + 719468;
          era = z div 146097;
          doe = z - era * 146097;
          yoe = (doe - doe div 1460 + doe div 36524 - doe div 146096) div 365;
          doy = doe - (365 * yoe + yoe div 4 - yoe div 100);
          mp = (5 * doy + 2) div 153;
          m = (if mp < 10 then mp + 3 else mp - 9)
      in \<lparr>year = (if m \<le> 2 then yoe + era * 400 + 1 else yoe + era * 400),
          month = m,
          day = doy - (153 * mp + 2) div 5 + 1,
          nanos = 0, utc_offset = None\<rparr>)"

text \<open>
  \<open>.dt.to_period('W').dt.start_time\<close> on one cell: weeks run from Monday to Sunday,
  and 1970-01-01 was a Thursday.
\<close>

fun week_start_day :: "cell \<Rightarrow> int option" where
  "week_start_day (Time t) =
     (let z = days_from_civil (year t) (month t) (day t) in Some (z - (z + 3) mod 7))"
| "week_start_day _ = None"

definition week_start :: "cell \<Rightarrow> cell" where
  "week_start c = (case week_start_day c of Some z \<Rightarrow> Time (civil_from_days z) | None \<Rightarrow> NaT)"

text \<open>
  \<^verbatim>\<open>
  def create_aging_trend(df, region_name):
      if df.empty:
          return None
      df_weekly = df.copy()
      df_weekly['Week'] = df_weekly['LIPA Created On'].dt.to_period('W').dt.start_time
      weekly_counts = df_weekly.groupby('Week').agg(
          total=('LIPA No. / Delivery', 'count'),
          over_30_days=('Day', lambda x: (x > 30).sum()),
          over_60_days=('Day', lambda x: (x > 60).sum())
      ).reset_index()
  \<close>
  The derived column goes to the copy \<open>df_weekly\<close>; one line of \<open>weekly_counts\<close> per
  week that occurs, in ascending order, rows without a week left out.
\<close>

definition create_aging_trend :: "frame \<Rightarrow> exn + (cell \<times> nat \<times> nat \<times> nat) list option \<times> frame" where
  "create_aging_trend df =
     (if is_empty df then Inr (None, df)
      else case missing_columns [CREATED_ON, ''LIPA No. / Delivery'', ''Day''] df of
        c # cs \<Rightarrow> Inl (KeyError [c])
      | [] \<Rightarrow>
          (let df_weekly = assign ''Week'' (\<lambda>r. week_start (get r CREATED_ON)) df;
               weeks = sort (remdups [z. Some z \<leftarrow> map (\<lambda>r. week_start_day (get r CREATED_ON)) (rows df_weekly)]);
               weekly_counts =
                 map (\<lambda>z. let g = filter (\<lambda>r. get r ''Week'' = Time (civil_from_days z)) (rows df_weekly)
                          in (Time (civil_from_days z),
                              length (filter (\<lambda>r. notna (get r ''LIPA No. / Delivery'')) g),
                              length (filter (\<lambda>r. gt (get r ''Day'') 30) g),
                              length (filter (\<lambda>r. gt (get r ''Day'') 60) g)))
                     weeks
           in Inr (Some weekly_counts, df)))"

text \<open>
  \<open>pd.cut(x, bins=bins, labels=labels, right=False)\<close> on one cell: the label of the
  first interval \<open>[lo, hi)\<close> of consecutive bin edges that holds the number, a null
  when there is none.  An edge \<open>None\<close> stands for \<open>float('inf')\<close>.
\<close>

fun cut :: "int option list \<Rightarrow> string list \<Rightarrow> int \<Rightarrow> cell" where
  "cut (lo # hi # bins) (l # labels) d =
     (if (case lo of Some a \<Rightarrow> a \<le> d | None \<Rightarrow> False) \<and> (case hi of Some b \<Rightarrow> d < b | None \<Rightarrow> True)
      then Str l else cut (hi # bins) labels d)"
| "cut bins labels d = NaN"

definition bins :: "int option list" where
  "bins = [Some 0, Some 30, Some 60, Some 90, None]"

definition labels :: "string list" where
  "labels = [''0-30 days'', ''31-60 days'', ''61-90 days'', ''>90 days'']"

definition age_bucket :: "cell \<Rightarrow> cell" where
  "age_bucket c = (case c of Num d \<Rightarrow> cut bins labels d | _ \<Rightarrow> NaN)"

text \<open>The text values of a column, each once, in ascending order: the keys of a group-by.\<close>

definition group_keys :: "string \<Rightarrow> frame \<Rightarrow> string list" where
  "group_keys c df = sort (remdups [s. Str s \<leftarrow> map (\<lambda>r. get r c) (rows df)])"

text \<open>
  \<^verbatim>\<open>
  def create_aging_distribution(df, region_name):
      if df.empty:
          return None
      bins = [0, 30, 60, 90, float('inf')]
      labels = ['0-30 days', '31-60 days', '61-90 days', '>90 days']
      df['Age Bucket'] = pd.cut(df['Day'], bins=bins, labels=labels, right=False)
      age_reason_counts = df.groupby(['Age Bucket', 'Reason code desc.']).size().reset_index(name='Count')
  \<close>
  \<open>age_reason_counts\<close> has one line per bucket label and reason that occurs, with the
  number of rows in that bucket with that reason; rows with a null key are in no group.
\<close>

definition create_aging_distribution :: "frame \<Rightarrow> exn + (string \<times> string \<times> nat) list option \<times> frame" where
  "create_aging_distribution df =
     (if is_empty df then Inr (None, df)
      else case missing_columns [''Day''] df of
        c # cs \<Rightarrow> Inl (KeyError [c])
      | [] \<Rightarrow>
          (let df = assign ''Age Bucket'' (\<lambda>r. age_bucket (get r ''Day'')) df
           in case missing_columns [REASON] df of
                c # cs \<Rightarrow> Inl (KeyError [c])
              | [] \<Rightarrow>
                  (let age_reason_counts =
                         concat (map (\<lambda>b. map (\<lambda>s. (b, s,
                             length (filter (\<lambda>r. get r ''Age Bucket'' = Str b \<and> get r REASON = Str s) (rows df))))
                           (group_keys REASON df)) labels)
                   in Inr (Some age_reason_counts, df))))"

text \<open>
  \<^verbatim>\<open>
  def create_heatmap(df, region_name):
      if df.empty:
          return None
      df['Model'] = df['Material number'].astype(str).str[:4]
      heatmap_data = df.pivot_table(index='Model', columns='Reason code desc.',
          values='LIPA No. / Delivery', aggfunc='count', fill_value=0).reset_index()
  \<close>
  \<open>heatmap_data\<close> has one line per model and, in it, one count per reason: the rows of
  that model and reason whose delivery number is not null.
\<close>

definition create_heatmap :: "frame \<Rightarrow> exn + (string \<times> (string \<times> nat) list) list option \<times> frame" where
  "create_heatmap df =
     (if is_empty df then Inr (None, df)
      else case missing_columns [''Material number''] df of
        c # cs \<Rightarrow> Inl (KeyError [c])
      | [] \<Rightarrow>
          (let df = assign ''Model'' (\<lambda>r. Str (take 4 (astype_str (get r ''Material number'')))) df
           in case missing_columns [''LIPA No. / Delivery'', REASON] df of
                c # cs \<Rightarrow> Inl (KeyError [c])
              | [] \<Rightarrow>
                  (let heatmap_data =
                         map (\<lambda>m. (m, map (\<lambda>s. (s,
                             length (filter (\<lambda>r. get r ''Model'' = Str m \<and> get r REASON = Str s \<and>
                                               notna (get r ''LIPA No. / Delivery'')) (rows df))))
                           (group_keys REASON df))) (group_keys ''Model'' df)
                   in Inr (Some heatmap_data, df))))"

subsection \<open>An example upload\<close>

text \<open>
  A sheet with the eleven input columns and eight rows, read on 2025-06-20, on which
  the theorems below are instantiated.  All cells are text or empty, as
  \<open>read_excel(_, dtype=str)\<close> delivers them.
\<close>

definition example_row :: "cell \<Rightarrow> cell \<Rightarrow> cell \<Rightarrow> cell \<Rightarrow> cell \<Rightarrow> cell \<Rightarrow> cell \<Rightarrow> row" where
  "example_row created status ext reason delivery pstatus material =
     [(CREATED_ON, created), (STATUS, status), (EXT_ID, ext), (REASON, reason),
      (''LIPA No. / Delivery'', delivery), (''Process status'', pstatus),
      (''Customer Ref. Ord.No.'', Str ''PO-1''), (''Material number'', material),
      (''Material Description'', Str ''Part''), (''Delivery Quantity'', Str ''1''),
      (''Model series'', Str ''X'')]"

definition example_sheet :: frame where
  "example_sheet =
     \<lparr>columns = [CREATED_ON, STATUS, EXT_ID, REASON, ''LIPA No. / Delivery'', ''Process status'',
                 ''Customer Ref. Ord.No.'', ''Material number'', ''Material Description'',
                 ''Delivery Quantity'', ''Model series''],
      rows =
        [example_row (Str ''2025-06-05 00:00:00'') (Str ''Open'') (Str ''7001234'')
           (Str ''Customs hold'') (Str ''D1'') (Str ''In process'') (Str ''A2059''),
         example_row (Str ''2025-06-05 00:00:00'') (Str ''Open'') (Str ''7007777'')
           (Str ''Customs hold'') (Str ''D2'') (Str ''In process'') (Str ''A2059''),
         example_row (Str ''2024-06-01 00:00:00'') (Str ''Open'') (Str ''7005555'')
           (Str ''Customs hold'') (Str ''D3'') (Str ''Closed'') (Str ''A2130''),
         example_row (Str ''2025-06-10 00:00:00'') (Str ''Open'') (Str ''7009999'')
           (Str ''Customs hold'') (Str ''D4'') (Str ''In process'') (Str ''A2059''),
         example_row (Str ''not a date'') (Str ''Open'') (Str ''7003333'')
           (Str ''Customs hold'') (Str ''D5'') (Str ''In process'') (Str ''A2059''),
         example_row (Str ''2025-05-01 00:00:00'') (Str ''GSS Classic pending'') (Str ''7002222'')
           NaN (Str ''D6'') (Str ''In process'') (Str ''A2130''),
         example_row (Str ''2025-05-21 00:00:00'') NaN NaN
           (Str ''Damaged'') (Str ''D7'') (Str ''In process'') NaN,
         example_row (Str ''2025-04-01 00:00:00'') (Str ''Open'') (Str ''7004444'')
           NaN (Str ''D8'') (Str ''In process'') (Str ''A2130'')]\<rparr>"

definition example_parse :: "cell \<Rightarrow> timestamp option" where
  "example_parse c =
     (if c = Str ''2025-06-05 00:00:00'' then Some \<lparr>year = 2025, month = 6, day = 5, nanos = 0, utc_offset = None\<rparr>
      else if c = Str ''2024-06-01 00:00:00'' then Some \<lparr>year = 2024, month = 6, day = 1, nanos = 0, utc_offset = None\<rparr>
      else if c = Str ''2025-06-10 00:00:00'' then Some \<lparr>year = 2025, month = 6, day = 10, nanos = 0, utc_offset = None\<rparr>
      else if c = Str ''2025-05-01 00:00:00'' then Some \<lparr>year = 2025, month = 5, day = 1, nanos = 0, utc_offset = None\<rparr>
      else if c = Str ''2025-05-21 00:00:00'' then Some \<lparr>year = 2025, month = 5, day = 21, nanos = 0, utc_offset = None\<rparr>
      else if c = Str ''2025-04-01 00:00:00'' then Some \<lparr>year = 2025, month = 4, day = 1, nanos = 0, utc_offset = None\<rparr>
      else if c = Str ''1700-01-01 00:00:00'' then Some \<lparr>year = 1700, month = 1, day = 1, nanos = 0, utc_offset = None\<rparr>
      else if c = Str ''2025-06-01 00:00:00+02:00''
        then Some \<lparr>year = 2025, month = 6, day = 1, nanos = 0, utc_offset = Some 7200\<rparr>
      else None)"

definition example_now :: timestamp where
  "example_now = \<lparr>year = 2025, month = 6, day = 20, nanos = 34200000000000, utc_offset = None\<rparr>"

definition example_read :: "unit \<Rightarrow> exn + frame" where
  "example_read f = Inr example_sheet"





section \<open>Properties\<close>

subsection \<open>Rows and frames\<close>

lemma get_update: "get (AList.update c v r) c' = (if c' = c then v else get r c')"
  by (simp add: get_def update_conv')

lemma get_Cons: "get ((c, v) # r) c' = (if c' = c then v else get r c')"
  by (simp add: get_def)

lemma get_project: "get (project cs r) c = (if c \<in> set cs then get r c else PyNone)"
  by (induction cs) (auto simp: project_def get_def)

lemma rows_assign: "rows (assign c f df) = map (\<lambda>r. AList.update c (f r) r) (rows df)"
  by (simp add: assign_def)

lemma set_columns_assign: "set (columns (assign c f df)) = insert c (set (columns df))"
  by (auto simp: assign_def)

subsection \<open>The derived columns\<close>

lemma clean_lipa_update:
  "c \<noteq> STATUS \<Longrightarrow> c \<noteq> EXT_ID \<Longrightarrow> clean_lipa (AList.update c v r) = clean_lipa r"
  by (simp add: clean_lipa_def get_update)

lemma day_error_columns:
  "subtract_error
     (column ''Today'' (assign ''Today'' (\<lambda>r. Time (date_of now))
        (assign CREATED_ON (\<lambda>r. to_datetime parse (get r CREATED_ON)) df)))
     (column CREATED_ON (assign ''Today'' (\<lambda>r. Time (date_of now))
        (assign CREATED_ON (\<lambda>r. to_datetime parse (get r CREATED_ON)) df))) =
   day_error parse now df"
  by (simp add: column_def day_error_def rows_assign get_update comp_def)

lemma derive_columns_ok_iff:
  "(\<exists>df'. derive_columns parse now df = Inr df') \<longleftrightarrow>
   CREATED_ON \<in> set (columns df) \<and> REASON \<in> set (columns df) \<and> day_error parse now df = None"
  unfolding derive_columns_def Let_def day_error_columns
  by (cases "day_error parse now df") (simp_all add: set_columns_assign)

lemma derive_columns_rows:
  "derive_columns parse now df = Inr df' \<Longrightarrow> rows df' = map (derive_row parse now) (rows df)"
  unfolding derive_columns_def Let_def day_error_columns
  by (auto split: if_splits option.splits simp: rows_assign derive_row_def Let_def comp_def)

lemma derive_columns_columns:
  "derive_columns parse now df = Inr df' \<Longrightarrow>
   set (columns df') = set (columns df) \<union> {''Today'', ''Day'', EXT_ID, ''Region''}"
  unfolding derive_columns_def Let_def day_error_columns
  by (auto split: if_splits option.splits simp: set_columns_assign)





lemma derive_columns_nth:
  assumes "derive_columns parse now df = Inr df'" and "i < length (rows df)"
  shows "rows df' ! i = derive_row parse now (rows df ! i)"
  using assms by (simp add: derive_columns_rows)


lemma derive_row_Day:
  "get (derive_row parse now r) ''Day'' =
     timedelta_days (Time (date_of now)) (to_datetime parse (get r CREATED_ON))"
  by (simp add: derive_row_def Let_def get_update)

lemma derive_row_Region:
  "get (derive_row parse now r) ''Region'' = region_of (clean_lipa r)"
  by (simp add: derive_row_def Let_def get_update clean_lipa_update)

lemma derive_row_Reason:
  "get (derive_row parse now r) REASON =
     replace_value (Str []) (Str ''GSS classic'') (fillna (Str []) (get r REASON))"
  by (simp add: derive_row_def Let_def get_update)

lemma derive_row_Ext:
  "get (derive_row parse now r) EXT_ID =
     (if get (derive_row parse now r) REASON = Str ''GSS classic'' then Str [] else clean_lipa r)"
  by (simp add: derive_row_def Let_def get_update clean_lipa_update)

lemma derive_row_Created:
  "get (derive_row parse now r) CREATED_ON = to_datetime parse (get r CREATED_ON)"
  by (simp add: derive_row_def Let_def get_update)

lemma region_of_cases: "region_of c = Str ''USA'' \<or> region_of c = Str ''Germany''"
  by (simp add: region_of_def)

lemma region_of_USA_iff: "region_of c = Str ''USA'' \<longleftrightarrow> startswith (astype_str c) ''7''"
  by (simp add: region_of_def)

lemma region_of_Germany_iff: "region_of c = Str ''Germany'' \<longleftrightarrow> \<not> startswith (astype_str c) ''7''"
  by (simp add: region_of_def)

lemma clean_lipa_GSS:
  "notna (get r STATUS) \<Longrightarrow> contains (astype_str (get r STATUS)) ''GSS Classic'' \<Longrightarrow>
   clean_lipa r = Str ''GSS classic''"
  by (simp add: clean_lipa_def)

subsection \<open>Sorting and numbering\<close>

lemma sorted_wrt_rev_sort_key: "sorted_wrt (\<lambda>a b. f b \<le> f a) (rev (sort_key f xs))"
proof -
  have "sorted (map f (sort_key f xs))" by simp
  then have "sorted_wrt (\<lambda>a b. f a \<le> f b) (sort_key f xs)"
    by (simp add: sorted_map)
  then show ?thesis by (simp add: sorted_wrt_rev)
qed

lemma sorts_descending_stable: "sorts_descending sort_values_stable"
  unfolding sorts_descending_def sort_values_stable_def
  by (simp add: sorted_wrt_rev_sort_key)

lemma sorts_descending_reversing: "sorts_descending sort_values_reversing"
  unfolding sorts_descending_def sort_values_reversing_def
  by (simp add: sorted_wrt_rev_sort_key)

lemma sorts_descending_mset: "sorts_descending sv \<Longrightarrow> mset (sv by rs) = mset rs"
  by (simp add: sorts_descending_def)

lemma sorts_descending_length: "sorts_descending sv \<Longrightarrow> length (sv by rs) = length rs"
  by (metis sorts_descending_mset size_mset)

lemma sorts_descending_set: "sorts_descending sv \<Longrightarrow> set (sv by rs) = set rs"
  by (metis sorts_descending_mset set_mset_mset)

lemma sorts_descending_sorted:
  "sorts_descending sv \<Longrightarrow>
   sorted_wrt (\<lambda>a b. numeric_key (get b by) \<le> numeric_key (get a by)) (sv by rs)"
  by (simp add: sorts_descending_def)

lemma length_insert_sr_no: "length (insert_sr_no rs) = length rs"
  by (simp add: insert_sr_no_def del: upt_Suc)

lemma map_tl_insert_sr_no: "map tl (insert_sr_no rs) = rs"
proof -
  have "map tl (insert_sr_no rs) = map snd (zip [1..<Suc (length rs)] rs)"
    by (simp add: insert_sr_no_def case_prod_unfold)
  also have "\<dots> = rs" by (rule map_snd_zip) (simp del: upt_Suc)
  finally show ?thesis .
qed

lemma map_sr_no_insert_sr_no:
  "map (\<lambda>r. get r ''Sr No.'') (insert_sr_no rs) = map (\<lambda>i. Num (int i)) [1..<Suc (length rs)]"
proof -
  have "map (\<lambda>r. get r ''Sr No.'') (insert_sr_no rs) =
        map (\<lambda>i. Num (int i)) (map fst (zip [1..<Suc (length rs)] rs))"
    by (simp add: insert_sr_no_def case_prod_unfold get_Cons)
  also have "map fst (zip [1..<Suc (length rs)] rs) = [1..<Suc (length rs)]"
    by (rule map_fst_zip) (simp del: upt_Suc)
  finally show ?thesis .
qed

lemma nth_insert_sr_no:
  "i < length rs \<Longrightarrow> insert_sr_no rs ! i = (''Sr No.'', Num (int (Suc i))) # rs ! i"
  by (simp add: insert_sr_no_def del: upt_Suc)

lemma get_insert_sr_no:
  "i < length rs \<Longrightarrow> c \<noteq> ''Sr No.'' \<Longrightarrow> get (insert_sr_no rs ! i) c = get (rs ! i) c"
  by (simp add: nth_insert_sr_no get_Cons)

lemma map_get_insert_sr_no:
  assumes "c \<noteq> ''Sr No.''"
  shows "map (\<lambda>r. get r c) (insert_sr_no rs) = map (\<lambda>r. get r c) rs"
  by (rule nth_equalityI) (simp_all add: length_insert_sr_no get_insert_sr_no assms)

subsection \<open>Partitions\<close>

lemma prepare_df_cases:
  "prepare_df sv rdf =
     (if set required_cols \<subseteq> set (columns rdf)
      then Inr \<lparr>columns = ''Sr No.'' # required_cols,
                rows = insert_sr_no (sv ''Day'' (map (project required_cols) (rows rdf)))\<rparr>
      else Inl (KeyError (filter (\<lambda>c. c \<notin> set (columns rdf)) required_cols)))"
proof (cases "filter (\<lambda>c. c \<notin> set (columns rdf)) required_cols")
  case Nil
  then have "set required_cols \<subseteq> set (columns rdf)"
    by (auto simp: filter_empty_conv)
  with Nil show ?thesis by (simp add: prepare_df_def Let_def)
next
  case (Cons c cs)
  then have "c \<in> set (filter (\<lambda>c. c \<notin> set (columns rdf)) required_cols)" by simp
  then have "\<not> set required_cols \<subseteq> set (columns rdf)" by auto
  with Cons show ?thesis by (simp add: prepare_df_def)
qed

lemma sorts_descending_Nil: "sorts_descending sv \<Longrightarrow> sv by [] = []"
  using sorts_descending_mset [of sv "by" "[]"] by simp

lemma region_frame_rows:
  assumes "sorts_descending sv" and "region_frame sv df name = Inr p"
  shows "rows p = insert_sr_no (sv ''Day'' (map (project required_cols)
           (filter (\<lambda>r. get r ''Region'' = Str name) (rows df))))"
proof (cases "Str name \<in> set (map (\<lambda>r. get r ''Region'') (rows df))")
  case True
  with assms(2) have "prepare_df sv (select (\<lambda>r. get r ''Region'' = Str name) df) = Inr p"
    by (simp add: region_frame_def)
  then show ?thesis
    by (auto simp: prepare_df_cases select_def split: if_splits)
next
  case False
  then have "filter (\<lambda>r. get r ''Region'' = Str name) (rows df) = []"
    by (force simp: filter_empty_conv)
  moreover from False assms(2) have "p = empty_frame"
    by (simp add: region_frame_def)
  ultimately show ?thesis
    using assms(1) by (simp add: sorts_descending_Nil insert_sr_no_def empty_frame_def)
qed

lemma process_data_Inr:
  assumes "read_excel f = Inr df0" and "derive_columns parse now df0 = Inr df1"
    and "process_data read_excel parse sv now f = Inr (usa, ger)"
  shows "region_frame sv (select (\<lambda>r. gt (get r ''Day'') 10) df1) ''USA'' = Inr usa"
    and "region_frame sv (select (\<lambda>r. gt (get r ''Day'') 10) df1) ''Germany'' = Inr ger"
  using assms by (simp_all add: process_data_def Let_def split: sum.splits)

lemma partition_rows:
  assumes "sorts_descending sv" and "read_excel f = Inr df0"
    and "derive_columns parse now df0 = Inr df1"
    and "process_data read_excel parse sv now f = Inr (usa, ger)"
  shows "rows usa = insert_sr_no (sv ''Day'' (map (project required_cols)
           (filter (\<lambda>r. get r ''Region'' = Str ''USA'') (filter (\<lambda>r. gt (get r ''Day'') 10) (rows df1)))))"
    and "rows ger = insert_sr_no (sv ''Day'' (map (project required_cols)
           (filter (\<lambda>r. get r ''Region'' = Str ''Germany'') (filter (\<lambda>r. gt (get r ''Day'') 10) (rows df1)))))"
  using region_frame_rows [OF assms(1) process_data_Inr(1) [OF assms(2,3,4)]]
        region_frame_rows [OF assms(1) process_data_Inr(2) [OF assms(2,3,4)]]
  by (simp_all add: select_def)

lemma derived_region_cases:
  assumes "derive_columns parse now df0 = Inr df1" and "r \<in> set (rows df1)"
  shows "get r ''Region'' = Str ''USA'' \<or> get r ''Region'' = Str ''Germany''"
proof -
  from assms obtain r0 where "r = derive_row parse now r0"
    by (auto simp: derive_columns_rows)
  then show ?thesis by (simp add: derive_row_Region region_of_cases)
qed

lemma mset_filter_split:
  assumes "\<And>x. x \<in> set xs \<Longrightarrow> Q x = (\<not> P x)"
  shows "mset (filter P xs) + mset (filter Q xs) = mset xs"
proof -
  have "filter Q xs = filter (\<lambda>x. \<not> P x) xs"
    by (rule filter_cong) (simp_all add: assms)
  then show ?thesis by simp
qed

lemma partition_split:
  assumes "derive_columns parse now df0 = Inr df1"
  shows "mset (filter (\<lambda>r. get r ''Region'' = Str ''USA'') (filter p (rows df1))) +
         mset (filter (\<lambda>r. get r ''Region'' = Str ''Germany'') (filter p (rows df1))) =
         mset (filter p (rows df1))"
proof (rule mset_filter_split)
  fix r assume "r \<in> set (filter p (rows df1))"
  then have "r \<in> set (rows df1)" by simp
  from derived_region_cases [OF assms this]
  show "(get r ''Region'' = Str ''Germany'') = (\<not> get r ''Region'' = Str ''USA'')"
    by auto
qed

subsection \<open>The example upload, evaluated\<close>

lemma example_created:
  "map (\<lambda>r. get r CREATED_ON) (rows example_sheet) =
     [Str ''2025-06-05 00:00:00'', Str ''2025-06-05 00:00:00'', Str ''2024-06-01 00:00:00'',
      Str ''2025-06-10 00:00:00'', Str ''not a date'', Str ''2025-05-01 00:00:00'',
      Str ''2025-05-21 00:00:00'', Str ''2025-04-01 00:00:00'']"
  by (simp add: example_sheet_def example_row_def get_def)

lemma example_day_error: "day_error example_parse example_now example_sheet = None"
proof -
  have "day_error example_parse example_now example_sheet =
        subtract_error (map (\<lambda>c. Time (date_of example_now)) (map (\<lambda>r. get r CREATED_ON) (rows example_sheet)))
          (map (to_datetime example_parse) (map (\<lambda>r. get r CREATED_ON) (rows example_sheet)))"
    by (simp add: day_error_def comp_def)
  also have "\<dots> = None"
    unfolding example_created
    by (simp add: subtract_error_def to_datetime_def example_parse_def date_of_def example_now_def
          epoch_ns_def days_from_civil_def ns_per_day_def int64_max_def Let_def)
  finally show ?thesis .
qed

lemma example_derived:
  "\<exists>df1. derive_columns example_parse example_now example_sheet = Inr df1"
  using derive_columns_ok_iff [of example_parse example_now example_sheet] example_day_error
  by (simp add: example_sheet_def)

subsection \<open>Region of a row\<close>

text \<open>
  Claim C10.  For every row of the input whose \<open>Combined Status\<close> field contains
  \<open>GSS Classic\<close>, the \<open>Region\<close> that \<open>process_data\<close> derives is Germany, whatever
  the row's \<open>LIPA EX33 FZ / ExtDlvID\<close> field holds: \<open>clean_lipa\<close> returns the text
  \<open>GSS classic\<close> for the row, the region is derived from that text, and it does not
  start with \<open>7\<close>.
\<close>

theorem C10_gss_classic_is_germany:
  assumes "derive_columns parse now df = Inr df'"
    and "i < length (rows df)"
    and "notna (get (rows df ! i) STATUS)"
    and "contains (astype_str (get (rows df ! i) STATUS)) ''GSS Classic''"
  shows "clean_lipa (AList.update EXT_ID x (rows df ! i)) = Str ''GSS classic'' \<and>
         clean_lipa (rows df ! i) = Str ''GSS classic'' \<and>
         \<not> startswith ''GSS classic'' ''7'' \<and>
         get (rows df' ! i) ''Region'' = Str ''Germany''"
proof -
  let ?r = "rows df ! i"
  have c: "clean_lipa ?r = Str ''GSS classic''"
    using assms(3,4) by (rule clean_lipa_GSS)
  have "get (AList.update EXT_ID x ?r) STATUS = get ?r STATUS"
    by (simp add: get_update)
  with assms(3,4) have c': "clean_lipa (AList.update EXT_ID x ?r) = Str ''GSS classic''"
    by (simp add: clean_lipa_def)
  have "get (rows df' ! i) ''Region'' = region_of (clean_lipa ?r)"
    using assms(1,2) by (simp add: derive_columns_nth derive_row_Region)
  with c have "get (rows df' ! i) ''Region'' = Str ''Germany''"
    by (simp add: region_of_def)
  with c c' show ?thesis by simp
qed

theorem C10_gss_classic_is_germany_witness:
  "\<exists>df'. derive_columns example_parse example_now example_sheet = Inr df' \<and>
     (5::nat) < length (rows example_sheet) \<and>
     notna (get (rows example_sheet ! 5) STATUS) \<and>
     contains (astype_str (get (rows example_sheet ! 5) STATUS)) ''GSS Classic'' \<and>
     get (rows example_sheet ! 5) EXT_ID = Str ''7002222'' \<and>
     get (rows df' ! 5) ''Region'' = Str ''Germany''"
proof -
  obtain df' where d: "derive_columns example_parse example_now example_sheet = Inr df'"
    using example_derived by blast
  have l: "(5::nat) < length (rows example_sheet)"
    by (simp add: example_sheet_def)
  have r: "rows example_sheet ! 5 =
      example_row (Str ''2025-05-01 00:00:00'') (Str ''GSS Classic pending'') (Str ''7002222'')
           NaN (Str ''D6'') (Str ''In process'') (Str ''A2130'')"
    by (simp add: example_sheet_def)
  have n: "notna (get (rows example_sheet ! 5) STATUS)"
    unfolding r by (simp add: example_row_def get_def)
  have c: "contains (astype_str (get (rows example_sheet ! 5) STATUS)) ''GSS Classic''"
    unfolding r by (simp add: example_row_def get_def)
  have e: "get (rows example_sheet ! 5) EXT_ID = Str ''7002222''"
    unfolding r by (simp add: example_row_def get_def)
  from C10_gss_classic_is_germany [OF d l n c] d l n c e show ?thesis
    by blast
qed

text \<open>
  Claim C5.  For every row of the input, the \<open>Region\<close> derived by \<open>process_data\<close>
  is USA exactly when the external id that \<open>clean_lipa\<close> returned for the row (the
  value of \<open>LIPA EX33 FZ / ExtDlvID\<close> before line 67 blanks it), turned into text,
  starts with \<open>7\<close>, and Germany otherwise.  A null id becomes the text \<open>None\<close>, so
  every row whose id is null is classified Germany.
\<close>

theorem C5_region_iff_starts_with_7:
  assumes "derive_columns parse now df = Inr df'" and "i < length (rows df)"
  shows "((get (rows df' ! i) ''Region'' = Str ''USA'') =
            startswith (astype_str (clean_lipa (rows df ! i))) ''7'') \<and>
         ((get (rows df' ! i) ''Region'' = Str ''Germany'') =
            (\<not> startswith (astype_str (clean_lipa (rows df ! i))) ''7'')) \<and>
         astype_str PyNone = ''None'' \<and>
         (clean_lipa (rows df ! i) = PyNone \<longrightarrow> get (rows df' ! i) ''Region'' = Str ''Germany'') \<and>
         (\<not> notna (get (rows df ! i) EXT_ID) \<longrightarrow> get (rows df' ! i) ''Region'' = Str ''Germany'')"
proof -
  let ?r = "rows df ! i"
  have reg: "get (rows df' ! i) ''Region'' = region_of (clean_lipa ?r)"
    using assms by (simp add: derive_columns_nth derive_row_Region)
  have null: "\<not> startswith (astype_str (clean_lipa ?r)) ''7''" if "\<not> notna (get ?r EXT_ID)"
    using that by (simp add: clean_lipa_def)
  show ?thesis
    using null by (auto simp: reg region_of_def)
qed

theorem C5_region_iff_starts_with_7_witness:
  "\<exists>df'. derive_columns example_parse example_now example_sheet = Inr df' \<and>
     (6::nat) < length (rows example_sheet) \<and>
     get (rows example_sheet ! 6) EXT_ID = NaN \<and>
     clean_lipa (rows example_sheet ! 6) = PyNone \<and>
     get (rows df' ! 6) ''Region'' = Str ''Germany''"
proof -
  obtain df' where d: "derive_columns example_parse example_now example_sheet = Inr df'"
    using example_derived by blast
  have l: "(6::nat) < length (rows example_sheet)"
    by (simp add: example_sheet_def)
  have r: "rows example_sheet ! 6 =
      example_row (Str ''2025-05-21 00:00:00'') NaN NaN
           (Str ''Damaged'') (Str ''D7'') (Str ''In process'') NaN"
    by (simp add: example_sheet_def)
  have e: "get (rows example_sheet ! 6) EXT_ID = NaN"
    unfolding r by (simp add: example_row_def get_def)
  have c: "clean_lipa (rows example_sheet ! 6) = PyNone"
    unfolding r by (simp add: clean_lipa_def example_row_def get_def)
  from C5_region_iff_starts_with_7 [OF d l] c d l e show ?thesis
    by blast
qed

subsection \<open>The sentinel reason and the blanked external id\<close>

text \<open>
  Claim C4.  For every row whose source reason is null or empty the reason code becomes
  the sentinel \<open>GSS classic\<close>, and every row whose reason code is the sentinel ends with
  the external id set to the empty text, which is not a null.  The region was derived
  before that from the id \<open>clean_lipa\<close> returned and is not derived again: it stays the
  region of the id before the overwrite.  In particular a row whose status contains
  \<open>GSS Classic\<close> and whose reason is blank ends with reason code \<open>GSS classic\<close> and an
  empty external id.
\<close>

theorem C4_sentinel_blanks_external_id:
  assumes "derive_columns parse now df = Inr df'" and "i < length (rows df)"
  shows "(\<not> notna (get (rows df ! i) REASON) \<or> get (rows df ! i) REASON = Str [] \<longrightarrow>
            get (rows df' ! i) REASON = Str ''GSS classic'') \<and>
         (get (rows df' ! i) REASON = Str ''GSS classic'' \<longrightarrow>
            get (rows df' ! i) EXT_ID = Str [] \<and> notna (get (rows df' ! i) EXT_ID)) \<and>
         (get (rows df' ! i) REASON \<noteq> Str ''GSS classic'' \<longrightarrow>
            get (rows df' ! i) EXT_ID = clean_lipa (rows df ! i)) \<and>
         get (rows df' ! i) ''Region'' = region_of (clean_lipa (rows df ! i)) \<and>
         (notna (get (rows df ! i) STATUS) \<and>
          contains (astype_str (get (rows df ! i) STATUS)) ''GSS Classic'' \<and>
          (\<not> notna (get (rows df ! i) REASON) \<or> get (rows df ! i) REASON = Str []) \<longrightarrow>
            get (rows df' ! i) REASON = Str ''GSS classic'' \<and> get (rows df' ! i) EXT_ID = Str [])"
proof -
  let ?r = "rows df ! i"
  have row: "rows df' ! i = derive_row parse now ?r"
    using assms by (rule derive_columns_nth)
  have blank: "get (derive_row parse now ?r) REASON = Str ''GSS classic''"
    if "\<not> notna (get ?r REASON) \<or> get ?r REASON = Str []"
    using that by (auto simp: derive_row_Reason fillna_def replace_value_def)
  show ?thesis
    unfolding row using blank
    by (simp add: derive_row_Ext derive_row_Region)
qed

theorem C4_sentinel_blanks_external_id_witness:
  "\<exists>df'. derive_columns example_parse example_now example_sheet = Inr df' \<and>
     (7::nat) < length (rows example_sheet) \<and>
     get (rows example_sheet ! 7) REASON = NaN \<and>
     clean_lipa (rows example_sheet ! 7) = Str ''7004444'' \<and>
     get (rows df' ! 7) REASON = Str ''GSS classic'' \<and>
     get (rows df' ! 7) EXT_ID = Str [] \<and>
     get (rows df' ! 7) ''Region'' = Str ''USA''"
proof -
  obtain df' where d: "derive_columns example_parse example_now example_sheet = Inr df'"
    using example_derived by blast
  have l: "(7::nat) < length (rows example_sheet)"
    by (simp add: example_sheet_def)
  have r: "rows example_sheet ! 7 =
      example_row (Str ''2025-04-01 00:00:00'') (Str ''Open'') (Str ''7004444'')
           NaN (Str ''D8'') (Str ''In process'') (Str ''A2130'')"
    by (simp add: example_sheet_def)
  have e: "get (rows example_sheet ! 7) REASON = NaN"
    unfolding r by (simp add: example_row_def get_def)
  have c: "clean_lipa (rows example_sheet ! 7) = Str ''7004444''"
    unfolding r by (simp add: clean_lipa_def example_row_def get_def)
  have u: "region_of (Str ''7004444'') = Str ''USA''"
    by (simp add: region_of_def)
  from C4_sentinel_blanks_external_id [OF d l] c d l e u show ?thesis
    by auto
qed

subsection \<open>Success and failure of \<open>process_data\<close>\<close>

lemma required_cols_derived:
  assumes "derive_columns parse now df0 = Inr df1"
  shows "set required_cols \<subseteq> set (columns df1) \<longleftrightarrow>
         set required_cols \<subseteq> set (columns df0) \<union> {EXT_ID, ''Day''}"
  unfolding derive_columns_columns [OF assms]
  by (auto simp: required_cols_def)

lemma region_frame_cases:
  "region_frame sv df name =
     (if Str name \<notin> set (map (\<lambda>r. get r ''Region'') (rows df)) then Inr empty_frame
      else if set required_cols \<subseteq> set (columns df)
      then Inr \<lparr>columns = ''Sr No.'' # required_cols,
                rows = insert_sr_no (sv ''Day'' (map (project required_cols)
                         (filter (\<lambda>r. get r ''Region'' = Str name) (rows df))))\<rparr>
      else Inl (KeyError (filter (\<lambda>c. c \<notin> set (columns df)) required_cols)))"
  by (simp add: region_frame_def prepare_df_cases select_def)

lemma process_data_ok:
  assumes "read_excel f = Inr df0"
    and "set required_cols \<subseteq> set (columns df0) \<union> {EXT_ID, ''Day''}"
    and "day_error parse now df0 = None"
  shows "\<exists>usa ger. process_data read_excel parse sv now f = Inr (usa, ger)"
proof -
  from assms(2) have "CREATED_ON \<in> set (columns df0)" and "REASON \<in> set (columns df0)"
    by (auto simp: required_cols_def)
  then obtain df1 where d: "derive_columns parse now df0 = Inr df1"
    using derive_columns_ok_iff [of parse now df0] assms(3) by auto
  have "set required_cols \<subseteq> set (columns df1)"
    using assms(2) by (simp add: required_cols_derived [OF d])
  then show ?thesis
    by (simp add: process_data_def assms(1) d region_frame_cases select_def Let_def)
qed










lemma example_sheet_columns:
  "set required_cols \<subseteq> set (columns example_sheet) \<union> {EXT_ID, ''Day''}"
  by (simp add: required_cols_def example_sheet_def)



subsection \<open>What the partitions hold\<close>

lemma gt_iff: "gt c n \<longleftrightarrow> (\<exists>d. c = Num d \<and> n < d)"
  by (cases c) auto

lemma get_project_Day: "get (project required_cols r) ''Day'' = get r ''Day''"
  by (simp add: get_project required_cols_def)

lemma in_insert_sr_no:
  assumes "r \<in> set (insert_sr_no xs)"
  shows "\<exists>i x. x \<in> set xs \<and> r = (''Sr No.'', Num (int i)) # x"
proof -
  from assms obtain i where "i < length xs" and "r = insert_sr_no xs ! i"
    by (auto simp: in_set_conv_nth length_insert_sr_no)
  then have "xs ! i \<in> set xs" and "r = (''Sr No.'', Num (int (Suc i))) # xs ! i"
    by (simp_all add: nth_insert_sr_no)
  then show ?thesis by blast
qed

lemma partition_mset:
  assumes "sorts_descending sv" and "read_excel f = Inr df0"
    and "derive_columns parse now df0 = Inr df1"
    and "process_data read_excel parse sv now f = Inr (usa, ger)"
  shows "mset (map tl (rows usa)) = mset (map (project required_cols)
           (filter (\<lambda>r. get r ''Region'' = Str ''USA'') (filter (\<lambda>r. gt (get r ''Day'') 10) (rows df1))))"
    and "mset (map tl (rows ger)) = mset (map (project required_cols)
           (filter (\<lambda>r. get r ''Region'' = Str ''Germany'') (filter (\<lambda>r. gt (get r ''Day'') 10) (rows df1))))"
  by (simp_all only: partition_rows [OF assms] map_tl_insert_sr_no sorts_descending_mset [OF assms(1)])

lemma partitions_mset:
  assumes "sorts_descending sv" and "read_excel f = Inr df0"
    and "derive_columns parse now df0 = Inr df1"
    and "process_data read_excel parse sv now f = Inr (usa, ger)"
  shows "mset (map tl (rows usa)) + mset (map tl (rows ger)) =
         mset (map (project required_cols) (filter (\<lambda>r. gt (get r ''Day'') 10) (rows df1)))"
proof -
  let ?rs = "filter (\<lambda>r. gt (get r ''Day'') 10) (rows df1)"
  have "mset (map tl (rows usa)) + mset (map tl (rows ger)) =
        image_mset (project required_cols)
          (mset (filter (\<lambda>r. get r ''Region'' = Str ''USA'') ?rs) +
           mset (filter (\<lambda>r. get r ''Region'' = Str ''Germany'') ?rs))"
    unfolding partition_mset [OF assms] by simp
  also have "\<dots> = image_mset (project required_cols) (mset ?rs)"
    by (simp only: partition_split [OF assms(3)])
  finally show ?thesis by simp
qed

lemma partition_Day:
  assumes "sorts_descending sv" and "read_excel f = Inr df0"
    and "derive_columns parse now df0 = Inr df1"
    and "process_data read_excel parse sv now f = Inr (usa, ger)"
    and "r \<in> set (rows usa) \<union> set (rows ger)"
  shows "\<exists>d. get r ''Day'' = Num d \<and> 10 < d"
proof -
  let ?rs = "filter (\<lambda>r. gt (get r ''Day'') 10) (rows df1)"
  from assms(5) obtain name where
    "r \<in> set (insert_sr_no (sv ''Day'' (map (project required_cols)
           (filter (\<lambda>r. get r ''Region'' = Str name) ?rs))))"
    using partition_rows [OF assms(1-4)] by auto
  then obtain i x where x: "x \<in> set (sv ''Day'' (map (project required_cols)
           (filter (\<lambda>r. get r ''Region'' = Str name) ?rs)))"
    and r: "r = (''Sr No.'', Num (int i)) # x"
    using in_insert_sr_no by blast
  from x obtain r1 where "r1 \<in> set ?rs" and "x = project required_cols r1"
    by (auto simp: sorts_descending_set [OF assms(1)])
  with r have "gt (get r1 ''Day'') 10" and "get r ''Day'' = get r1 ''Day''"
    by (simp_all add: get_Cons get_project_Day)
  then show ?thesis by (simp add: gt_iff)
qed

subsection \<open>Days and regions of the example\<close>

lemma example_day_of:
  "map (\<lambda>c. timedelta_days (Time (date_of example_now)) (to_datetime example_parse c))
     [Str ''2025-06-05 00:00:00'', Str ''2025-06-05 00:00:00'', Str ''2024-06-01 00:00:00'',
      Str ''2025-06-10 00:00:00'', Str ''not a date'', Str ''2025-05-01 00:00:00'',
      Str ''2025-05-21 00:00:00'', Str ''2025-04-01 00:00:00''] =
     [Num 15, Num 15, Num 384, Num 10, NaN, Num 50, Num 30, Num 80]"
  by (simp add: to_datetime_def example_parse_def date_of_def example_now_def epoch_ns_def
        days_from_civil_def ns_per_day_def Let_def)

lemma example_days:
  assumes "derive_columns example_parse example_now example_sheet = Inr df1"
  shows "map (\<lambda>r. get r ''Day'') (rows df1) =
           [Num 15, Num 15, Num 384, Num 10, NaN, Num 50, Num 30, Num 80]"
proof -
  have "map (\<lambda>r. get r ''Day'') (rows df1) =
        map (\<lambda>c. timedelta_days (Time (date_of example_now)) (to_datetime example_parse c))
          (map (\<lambda>r. get r CREATED_ON) (rows example_sheet))"
    by (simp add: derive_columns_rows [OF assms] derive_row_Day comp_def)
  then show ?thesis
    by (simp only: example_created example_day_of)
qed

lemma length_filter_column:
  "length (filter (\<lambda>r. p (get r c)) rs) = length (filter p (map (\<lambda>r. get r c) rs))"
  by (simp add: filter_map comp_def)

lemma example_retained:
  assumes "derive_columns example_parse example_now example_sheet = Inr df1"
  shows "length (filter (\<lambda>r. gt (get r ''Day'') 10) (rows df1)) = 6"
  by (simp add: length_filter_column [of "\<lambda>c. gt c 10"] example_days [OF assms])

lemma example_read_sheet: "example_read () = Inr example_sheet"
  by (simp add: example_read_def)

lemma example_processed:
  "\<exists>usa ger. process_data example_read example_parse sv example_now () = Inr (usa, ger)"
  using process_data_ok [of example_read "()" example_sheet example_parse example_now sv]
    example_read_sheet example_sheet_columns example_day_error
  by simp

subsection \<open>The aging filter and the two partitions\<close>

text \<open>
  Claim C6.  A record is retained exactly when its \<open>Day\<close> is greater than 10: the rows
  of the two partitions are, without their sequence numbers, the rows with
  \<open>Day > 10\<close> and no others, and every row of a partition has a \<open>Day\<close> above 10.
  \<open>Day\<close> is the whole number of days from the creation date to today; a row with
  \<open>Day\<close> exactly 10 fails the test, and a creation date that does not parse gives a
  null \<open>Day\<close>, which fails it too.
\<close>

theorem C6_retained_iff_older_than_10:
  assumes "sorts_descending sv" and "read_excel f = Inr df0"
    and "derive_columns parse now df0 = Inr df1"
    and "process_data read_excel parse sv now f = Inr (usa, ger)"
  shows "(\<forall>r \<in> set (rows usa) \<union> set (rows ger). \<exists>d. get r ''Day'' = Num d \<and> 10 < d) \<and>
         mset (map tl (rows usa)) + mset (map tl (rows ger)) =
           mset (map (project required_cols) (filter (\<lambda>r. gt (get r ''Day'') 10) (rows df1))) \<and>
         (\<forall>r \<in> set (rows df1).
            (project required_cols r \<in> set (map tl (rows usa)) \<union> set (map tl (rows ger))) =
            (\<exists>d. get r ''Day'' = Num d \<and> 10 < d)) \<and>
         (\<forall>i<length (rows df0). get (rows df1 ! i) ''Day'' =
            timedelta_days (Time (date_of now)) (to_datetime parse (get (rows df0 ! i) CREATED_ON))) \<and>
         \<not> gt (Num 10) 10 \<and>
         (\<forall>c. parse c = None \<longrightarrow>
            \<not> gt (timedelta_days (Time (date_of now)) (to_datetime parse c)) 10)"
proof -
  let ?rs = "filter (\<lambda>r. gt (get r ''Day'') 10) (rows df1)"
  note m = partitions_mset [OF assms]
  have a: "\<forall>r \<in> set (rows usa) \<union> set (rows ger). \<exists>d. get r ''Day'' = Num d \<and> 10 < d"
    using partition_Day [OF assms] by blast
  have "set (map tl (rows usa)) \<union> set (map tl (rows ger)) =
        set_mset (mset (map tl (rows usa)) + mset (map tl (rows ger)))"
    by simp
  also have "\<dots> = project required_cols ` set ?rs"
    unfolding m by simp
  finally have s: "set (map tl (rows usa)) \<union> set (map tl (rows ger)) =
      project required_cols ` set ?rs" .
  have b: "(project required_cols r \<in> set (map tl (rows usa)) \<union> set (map tl (rows ger))) =
           (\<exists>d. get r ''Day'' = Num d \<and> 10 < d)" if "r \<in> set (rows df1)" for r
  proof
    assume "project required_cols r \<in> set (map tl (rows usa)) \<union> set (map tl (rows ger))"
    then obtain r' where "r' \<in> set ?rs" and "project required_cols r = project required_cols r'"
      unfolding s by auto
    then have "gt (get r' ''Day'') 10" and "get r ''Day'' = get r' ''Day''"
      by (simp, metis get_project_Day)
    then show "\<exists>d. get r ''Day'' = Num d \<and> 10 < d" by (simp add: gt_iff)
  next
    assume "\<exists>d. get r ''Day'' = Num d \<and> 10 < d"
    with that have "r \<in> set ?rs" by (simp add: gt_iff)
    then show "project required_cols r \<in> set (map tl (rows usa)) \<union> set (map tl (rows ger))"
      unfolding s by blast
  qed
  have c: "\<forall>i<length (rows df0). get (rows df1 ! i) ''Day'' =
            timedelta_days (Time (date_of now)) (to_datetime parse (get (rows df0 ! i) CREATED_ON))"
    by (simp add: derive_columns_nth [OF assms(3)] derive_row_Day)
  have d: "\<forall>c. parse c = None \<longrightarrow>
            \<not> gt (timedelta_days (Time (date_of now)) (to_datetime parse c)) 10"
    by (simp add: to_datetime_def)
  from a m b c d show ?thesis by simp
qed

theorem C6_retained_iff_older_than_10_witness:
  "sorts_descending sort_values_stable \<and> example_read () = Inr example_sheet \<and>
   (\<exists>df1 usa ger.
      derive_columns example_parse example_now example_sheet = Inr df1 \<and>
      process_data example_read example_parse sort_values_stable example_now () = Inr (usa, ger) \<and>
      map (\<lambda>r. get r ''Day'') (rows df1) =
        [Num 15, Num 15, Num 384, Num 10, NaN, Num 50, Num 30, Num 80] \<and>
      size (mset (map tl (rows usa)) + mset (map tl (rows ger))) = 6 \<and>
      project required_cols (rows df1 ! 0) \<in> set (map tl (rows usa)) \<union> set (map tl (rows ger)) \<and>
      project required_cols (rows df1 ! 3) \<notin> set (map tl (rows usa)) \<union> set (map tl (rows ger)) \<and>
      project required_cols (rows df1 ! 4) \<notin> set (map tl (rows usa)) \<union> set (map tl (rows ger)))"
proof -
  obtain df1 where d: "derive_columns example_parse example_now example_sheet = Inr df1"
    using example_derived by blast
  note r = example_read_sheet
  obtain usa ger where
    p: "process_data example_read example_parse sort_values_stable example_now () = Inr (usa, ger)"
    using example_processed by blast
  note t = C6_retained_iff_older_than_10 [OF sorts_descending_stable r d p]
  note days = example_days [OF d]
  have l: "length (rows df1) = 8"
    using arg_cong [OF days, of length] by simp
  have n: "get (rows df1 ! 0) ''Day'' = Num 15" "get (rows df1 ! 3) ''Day'' = Num 10"
      "get (rows df1 ! 4) ''Day'' = NaN"
    using arg_cong [OF days, of "\<lambda>xs. xs ! 0"] arg_cong [OF days, of "\<lambda>xs. xs ! 3"]
      arg_cong [OF days, of "\<lambda>xs. xs ! 4"] l
    by simp_all
  have m: "rows df1 ! 0 \<in> set (rows df1)" "rows df1 ! 3 \<in> set (rows df1)"
      "rows df1 ! 4 \<in> set (rows df1)"
    using l by simp_all
  have s: "size (mset (map tl (rows usa)) + mset (map tl (rows ger))) = 6"
    using t example_retained [OF d] by (simp only: size_mset length_map)
  from t m n
  have "project required_cols (rows df1 ! 0) \<in> set (map tl (rows usa)) \<union> set (map tl (rows ger))"
    and "project required_cols (rows df1 ! 3) \<notin> set (map tl (rows usa)) \<union> set (map tl (rows ger))"
    and "project required_cols (rows df1 ! 4) \<notin> set (map tl (rows usa)) \<union> set (map tl (rows ger))"
    by simp_all
  with sorts_descending_stable r d p days s show ?thesis
    by (intro conjI exI) assumption+
qed

text \<open>
  Claim C8.  The number of rows of the USA partition plus the number of rows of the
  Germany partition is the number of retained rows (those with \<open>Day > 10\<close>): each
  partition holds the retained rows of its region, and every row has exactly one of the
  two regions.
\<close>

theorem C8_partition_counts_sum:
  assumes "sorts_descending sv" and "read_excel f = Inr df0"
    and "derive_columns parse now df0 = Inr df1"
    and "process_data read_excel parse sv now f = Inr (usa, ger)"
  shows "length (rows usa) + length (rows ger) =
           length (filter (\<lambda>r. gt (get r ''Day'') 10) (rows df1)) \<and>
         mset (map tl (rows usa)) = mset (map (project required_cols)
           (filter (\<lambda>r. get r ''Region'' = Str ''USA'') (filter (\<lambda>r. gt (get r ''Day'') 10) (rows df1)))) \<and>
         mset (map tl (rows ger)) = mset (map (project required_cols)
           (filter (\<lambda>r. get r ''Region'' = Str ''Germany'') (filter (\<lambda>r. gt (get r ''Day'') 10) (rows df1)))) \<and>
         (\<forall>r \<in> set (rows df1).
            (get r ''Region'' = Str ''USA'') \<noteq> (get r ''Region'' = Str ''Germany''))"
proof -
  have "length (rows usa) + length (rows ger) =
        size (mset (map tl (rows usa)) + mset (map tl (rows ger)))"
    by simp
  also have "\<dots> = length (filter (\<lambda>r. gt (get r ''Day'') 10) (rows df1))"
    unfolding partitions_mset [OF assms] by (simp only: size_mset length_map)
  finally have n: "length (rows usa) + length (rows ger) =
           length (filter (\<lambda>r. gt (get r ''Day'') 10) (rows df1))" .
  have "(get r ''Region'' = Str ''USA'') \<noteq> (get r ''Region'' = Str ''Germany'')"
    if "r \<in> set (rows df1)" for r
    using derived_region_cases [OF assms(3) that] by auto
  with n partition_mset [OF assms] show ?thesis by simp
qed

theorem C8_partition_counts_sum_witness:
  "sorts_descending sort_values_stable \<and> example_read () = Inr example_sheet \<and>
   (\<exists>df1 usa ger.
      derive_columns example_parse example_now example_sheet = Inr df1 \<and>
      process_data example_read example_parse sort_values_stable example_now () = Inr (usa, ger) \<and>
      length (filter (\<lambda>r. gt (get r ''Day'') 10) (rows df1)) = 6 \<and>
      length (rows usa) + length (rows ger) = 6)"
proof -
  obtain df1 where d: "derive_columns example_parse example_now example_sheet = Inr df1"
    using example_derived by blast
  note r = example_read_sheet
  obtain usa ger where
    p: "process_data example_read example_parse sort_values_stable example_now () = Inr (usa, ger)"
    using example_processed by blast
  from C8_partition_counts_sum [OF sorts_descending_stable r d p] example_retained [OF d]
  have "length (rows usa) + length (rows ger) = 6" by simp
  with sorts_descending_stable r d p example_retained [OF d] show ?thesis
    by (intro conjI exI) assumption+
qed

lemma map_insort_key: "map h (insort_key (\<lambda>a. k (h a)) x xs) = insort_key k (h x) (map h xs)"
  by (induction xs) simp_all

lemma map_sort_key: "map h (sort_key (\<lambda>a. k (h a)) xs) = sort_key k (map h xs)"
  by (induction xs) (simp_all add: map_insort_key)

lemma example_regions:
  assumes "derive_columns example_parse example_now example_sheet = Inr df1"
  shows "map (\<lambda>r. get r ''Region'') (rows df1) =
           [Str ''USA'', Str ''USA'', Str ''USA'', Str ''USA'', Str ''USA'', Str ''Germany'',
            Str ''Germany'', Str ''USA'']"
proof -
  have "map (\<lambda>r. get r ''Region'') (rows df1) =
        map (\<lambda>r. region_of (clean_lipa r)) (rows example_sheet)"
    by (simp add: derive_columns_rows [OF assms] derive_row_Region comp_def)
  also have "\<dots> = [Str ''USA'', Str ''USA'', Str ''USA'', Str ''USA'', Str ''USA'', Str ''Germany'',
            Str ''Germany'', Str ''USA'']"
    by (simp add: example_sheet_def example_row_def clean_lipa_def get_def region_of_def)
  finally show ?thesis .
qed

lemma example_deliveries:
  assumes "derive_columns example_parse example_now example_sheet = Inr df1"
  shows "map (\<lambda>r. get r ''LIPA No. / Delivery'') (rows df1) =
           [Str ''D1'', Str ''D2'', Str ''D3'', Str ''D4'', Str ''D5'', Str ''D6'', Str ''D7'', Str ''D8'']"
proof -
  have "map (\<lambda>r. get r ''LIPA No. / Delivery'') (rows df1) =
        map (\<lambda>r. get r ''LIPA No. / Delivery'') (rows example_sheet)"
    by (simp add: derive_columns_rows [OF assms] derive_row_def Let_def get_update comp_def)
  also have "\<dots> = [Str ''D1'', Str ''D2'', Str ''D3'', Str ''D4'', Str ''D5'', Str ''D6'', Str ''D7'', Str ''D8'']"
    by (simp add: example_sheet_def example_row_def get_def)
  finally show ?thesis .
qed

lemma example_summary:
  assumes "derive_columns example_parse example_now example_sheet = Inr df1"
  shows "map (\<lambda>r. (get r ''Day'', get r ''Region'', get r ''LIPA No. / Delivery'')) (rows df1) =
     [(Num 15, Str ''USA'', Str ''D1''), (Num 15, Str ''USA'', Str ''D2''),
      (Num 384, Str ''USA'', Str ''D3''), (Num 10, Str ''USA'', Str ''D4''),
      (NaN, Str ''USA'', Str ''D5''), (Num 50, Str ''Germany'', Str ''D6''),
      (Num 30, Str ''Germany'', Str ''D7''), (Num 80, Str ''USA'', Str ''D8'')]"
proof -
  have "map (\<lambda>r. (get r ''Day'', get r ''Region'', get r ''LIPA No. / Delivery'')) (rows df1) =
        zip (map (\<lambda>r. get r ''Day'') (rows df1))
          (zip (map (\<lambda>r. get r ''Region'') (rows df1))
               (map (\<lambda>r. get r ''LIPA No. / Delivery'') (rows df1)))"
    by (simp add: zip_map_map zip_same_conv_map)
  then show ?thesis
    by (simp only: example_days [OF assms] example_regions [OF assms] example_deliveries [OF assms])
       simp
qed

text \<open>The USA partition of the example, by day and delivery number, before it is sorted.\<close>

lemma example_usa_unsorted:
  assumes "derive_columns example_parse example_now example_sheet = Inr df1"
  shows "map (\<lambda>r. (get r ''Day'', get r ''LIPA No. / Delivery''))
           (map (project required_cols)
             (filter (\<lambda>r. get r ''Region'' = Str ''USA'')
               (filter (\<lambda>r. gt (get r ''Day'') 10) (rows df1)))) =
         [(Num 15, Str ''D1''), (Num 15, Str ''D2''), (Num 384, Str ''D3''), (Num 80, Str ''D8'')]"
proof -
  let ?s = "\<lambda>r. (get r ''Day'', get r ''Region'', get r ''LIPA No. / Delivery'')"
  have "map (\<lambda>r. (get r ''Day'', get r ''LIPA No. / Delivery''))
           (map (project required_cols)
             (filter (\<lambda>r. get r ''Region'' = Str ''USA'')
               (filter (\<lambda>r. gt (get r ''Day'') 10) (rows df1)))) =
        map (\<lambda>(a, b, c). (a, c))
          (filter (\<lambda>(a, b, c). b = Str ''USA'') (filter (\<lambda>(a, b, c). gt a 10) (map ?s (rows df1))))"
    by (simp add: filter_map comp_def get_project required_cols_def)
  then show ?thesis
    by (simp only: example_summary [OF assms]) simp
qed

subsection \<open>Order and numbering of a partition\<close>

text \<open>
  Claim C3, as amended.  The rows of a partition are, without their sequence numbers, a
  permutation of the retained rows of the region projected to the required columns;
  \<open>Sr No.\<close> runs from 1 to the number of rows in the order of the rows; and \<open>Day\<close>
  does not increase along the rows.  The order among rows with equal \<open>Day\<close> is the
  one the library's sort returns: the call leaves the sort at its default algorithm,
  which is not a stable one, so the claim's "ties keep their input order" does not
  follow from the code.
\<close>

theorem C3_sorted_descending_numbered:
  assumes "sorts_descending sv" and "read_excel f = Inr df0"
    and "derive_columns parse now df0 = Inr df1"
    and "process_data read_excel parse sv now f = Inr (usa, ger)"
    and "p = usa \<and> name = ''USA'' \<or> p = ger \<and> name = ''Germany''"
  shows "mset (map tl (rows p)) = mset (map (project required_cols)
           (filter (\<lambda>r. get r ''Region'' = Str name) (filter (\<lambda>r. gt (get r ''Day'') 10) (rows df1)))) \<and>
         map (\<lambda>r. get r ''Sr No.'') (rows p) = map (\<lambda>i. Num (int i)) [1..<Suc (length (rows p))] \<and>
         (\<forall>i j. i < j \<and> j < length (rows p) \<longrightarrow>
            (\<exists>a b. get (rows p ! i) ''Day'' = Num a \<and> get (rows p ! j) ''Day'' = Num b \<and> b \<le> a))"
proof -
  let ?xs = "sv ''Day'' (map (project required_cols)
           (filter (\<lambda>r. get r ''Region'' = Str name) (filter (\<lambda>r. gt (get r ''Day'') 10) (rows df1))))"
  have rows: "rows p = insert_sr_no ?xs"
    using assms(5) partition_rows [OF assms(1-4)] by auto
  have m: "mset (map tl (rows p)) = mset (map (project required_cols)
           (filter (\<lambda>r. get r ''Region'' = Str name) (filter (\<lambda>r. gt (get r ''Day'') 10) (rows df1))))"
    using assms(5) partition_mset [OF assms(1-4)] by auto
  have len: "length (rows p) = length ?xs"
    by (simp add: rows length_insert_sr_no)
  have n: "map (\<lambda>r. get r ''Sr No.'') (rows p) = map (\<lambda>i. Num (int i)) [1..<Suc (length (rows p))]"
    unfolding len unfolding rows by (rule map_sr_no_insert_sr_no)
  have sub: "set (rows p) \<subseteq> set (rows usa) \<union> set (rows ger)"
    using assms(5) by auto
  have s: "\<exists>a b. get (rows p ! i) ''Day'' = Num a \<and> get (rows p ! j) ''Day'' = Num b \<and> b \<le> a"
    if "i < j" and "j < length (rows p)" for i j
  proof -
    from that have i: "i < length (rows p)" by simp
    from i sub have "rows p ! i \<in> set (rows usa) \<union> set (rows ger)"
      using nth_mem by blast
    from partition_Day [OF assms(1-4) this]
    obtain a where a: "get (rows p ! i) ''Day'' = Num a" by blast
    from that(2) sub have "rows p ! j \<in> set (rows usa) \<union> set (rows ger)"
      using nth_mem by blast
    from partition_Day [OF assms(1-4) this]
    obtain b where b: "get (rows p ! j) ''Day'' = Num b" by blast
    have "numeric_key (get (?xs ! j) ''Day'') \<le> numeric_key (get (?xs ! i) ''Day'')"
      using sorted_wrt_nth_less [OF sorts_descending_sorted [OF assms(1)] that(1)] that(2) len
      by simp
    moreover have "get (?xs ! i) ''Day'' = Num a" and "get (?xs ! j) ''Day'' = Num b"
      using a b i that(2) len by (simp_all add: rows get_insert_sr_no)
    ultimately have "b \<le> a" by simp
    with a b show ?thesis by blast
  qed
  from m n s show ?thesis by blast
qed

theorem C3_sorted_descending_numbered_witness:
  "sorts_descending sort_values_stable \<and> example_read () = Inr example_sheet \<and>
   (\<exists>df1 usa ger.
      derive_columns example_parse example_now example_sheet = Inr df1 \<and>
      process_data example_read example_parse sort_values_stable example_now () = Inr (usa, ger) \<and>
      length (rows usa) = 4 \<and>
      map (\<lambda>r. get r ''Sr No.'') (rows usa) = [Num 1, Num 2, Num 3, Num 4] \<and>
      (\<exists>a b. get (rows usa ! 0) ''Day'' = Num a \<and> get (rows usa ! 3) ''Day'' = Num b \<and> b \<le> a))"
proof -
  obtain df1 where d: "derive_columns example_parse example_now example_sheet = Inr df1"
    using example_derived by blast
  note r = example_read_sheet
  obtain usa ger where
    p: "process_data example_read example_parse sort_values_stable example_now () = Inr (usa, ger)"
    using example_processed by blast
  note t = C3_sorted_descending_numbered [OF sorts_descending_stable r d p, of usa "''USA''"]
  from t have "size (mset (map tl (rows usa))) = size (mset (map (\<lambda>r. (get r ''Day'', get r ''LIPA No. / Delivery''))
           (map (project required_cols)
             (filter (\<lambda>r. get r ''Region'' = Str ''USA'')
               (filter (\<lambda>r. gt (get r ''Day'') 10) (rows df1))))))"
    by simp
  then have l: "length (rows usa) = 4"
    by (simp only: example_usa_unsorted [OF d] size_mset length_map) simp
  from t l have n: "map (\<lambda>r. get r ''Sr No.'') (rows usa) = [Num 1, Num 2, Num 3, Num 4]"
    by (simp add: upt_rec)
  from t l have s: "\<exists>a b. get (rows usa ! 0) ''Day'' = Num a \<and> get (rows usa ! 3) ''Day'' = Num b \<and> b \<le> a"
    by simp
  then obtain a b where "get (rows usa ! 0) ''Day'' = Num a" and "get (rows usa ! 3) ''Day'' = Num b"
    and "b \<le> a" by blast
  with sorts_descending_stable r d p l n show ?thesis
    by (intro conjI exI) assumption+
qed

text \<open>
  The claim as stated fails for a sort that meets the library's contract and reverses
  ties: the example's rows \<open>D1\<close> and \<open>D2\<close>, both 15 days old and read in this
  order, come out as \<open>D2\<close>, \<open>D1\<close>, which is not the order a stable sort gives.
\<close>

theorem C3_tie_order_counterexample:
  "sorts_descending sort_values_reversing \<and>
   (\<exists>df1 usa ger.
      derive_columns example_parse example_now example_sheet = Inr df1 \<and>
      process_data example_read example_parse sort_values_reversing example_now () = Inr (usa, ger) \<and>
      map (\<lambda>r. (get r ''Day'', get r ''LIPA No. / Delivery''))
        (map (project required_cols)
          (filter (\<lambda>r. get r ''Region'' = Str ''USA'')
            (filter (\<lambda>r. gt (get r ''Day'') 10) (rows df1)))) =
        [(Num 15, Str ''D1''), (Num 15, Str ''D2''), (Num 384, Str ''D3''), (Num 80, Str ''D8'')] \<and>
      map (\<lambda>r. (get r ''Day'', get r ''LIPA No. / Delivery'')) (rows usa) =
        [(Num 384, Str ''D3''), (Num 80, Str ''D8''), (Num 15, Str ''D2''), (Num 15, Str ''D1'')] \<and>
      map tl (rows usa) \<noteq>
        sort_values_stable ''Day'' (map (project required_cols)
          (filter (\<lambda>r. get r ''Region'' = Str ''USA'')
            (filter (\<lambda>r. gt (get r ''Day'') 10) (rows df1)))))"
proof -
  obtain df1 where d: "derive_columns example_parse example_now example_sheet = Inr df1"
    using example_derived by blast
  obtain usa ger where
    p: "process_data example_read example_parse sort_values_reversing example_now () = Inr (usa, ger)"
    using example_processed by blast
  let ?h = "\<lambda>r. (get r ''Day'', get r ''LIPA No. / Delivery'')"
  let ?P = "map (project required_cols)
          (filter (\<lambda>r. get r ''Region'' = Str ''USA'')
            (filter (\<lambda>r. gt (get r ''Day'') 10) (rows df1)))"
  note u = example_usa_unsorted [OF d]
  have key: "map ?h (sort_key (\<lambda>r. numeric_key (get r ''Day'')) xs) =
             sort_key (\<lambda>q. numeric_key (fst q)) (map ?h xs)" for xs
    using map_sort_key [of ?h "\<lambda>q. numeric_key (fst q)" xs] by simp
  have rows: "rows usa = insert_sr_no (sort_values_reversing ''Day'' ?P)"
    using partition_rows(1) [OF sorts_descending_reversing example_read_sheet d p] .
  have "map ?h (rows usa) = map ?h (sort_values_reversing ''Day'' ?P)"
    unfolding rows
    by (rule nth_equalityI) (simp_all add: length_insert_sr_no get_insert_sr_no)
  also have "\<dots> = rev (sort_key (\<lambda>q. numeric_key (fst q)) (map ?h ?P))"
    by (simp only: sort_values_reversing_def rev_map [symmetric] key)
  also have "\<dots> = [(Num 384, Str ''D3''), (Num 80, Str ''D8''), (Num 15, Str ''D2''), (Num 15, Str ''D1'')]"
    by (simp only: u) simp
  finally have out: "map ?h (rows usa) =
      [(Num 384, Str ''D3''), (Num 80, Str ''D8''), (Num 15, Str ''D2''), (Num 15, Str ''D1'')]" .
  have "map ?h (sort_values_stable ''Day'' ?P) =
        rev (sort_key (\<lambda>q. numeric_key (fst q)) (rev (map ?h ?P)))"
    by (simp only: sort_values_stable_def rev_map [symmetric] key)
  also have "\<dots> = [(Num 384, Str ''D3''), (Num 80, Str ''D8''), (Num 15, Str ''D1''), (Num 15, Str ''D2'')]"
    by (simp only: u) simp
  finally have stable: "map ?h (sort_values_stable ''Day'' ?P) =
      [(Num 384, Str ''D3''), (Num 80, Str ''D8''), (Num 15, Str ''D1''), (Num 15, Str ''D2'')]" .
  have "map ?h (map tl (rows usa)) = map ?h (rows usa)"
    unfolding rows
    by (simp only: map_tl_insert_sr_no, rule nth_equalityI)
       (simp_all add: length_insert_sr_no get_insert_sr_no)
  with out stable have ne: "map tl (rows usa) \<noteq> sort_values_stable ''Day'' ?P"
    by auto
  from sorts_descending_reversing d p u out ne show ?thesis
    by (intro conjI exI) assumption+
qed

subsection \<open>The age-bucket histogram\<close>

lemma age_bucket_Num:
  "age_bucket (Num d) =
     (if 0 \<le> d \<and> d < 30 then Str ''0-30 days''
      else if 30 \<le> d \<and> d < 60 then Str ''31-60 days''
      else if 60 \<le> d \<and> d < 90 then Str ''61-90 days''
      else if 90 \<le> d then Str ''>90 days''
      else NaN)"
  by (simp add: age_bucket_def bins_def labels_def)

lemma age_bucket_label: "0 \<le> d \<Longrightarrow> age_bucket (Num d) \<in> Str ` set labels"
  by (simp add: age_bucket_Num labels_def)

lemma set_text_values: "set [s. Str s \<leftarrow> xs] = {s. Str s \<in> set xs}"
  by (induction xs) (auto split: cell.splits)

lemma group_keys_set: "set (group_keys c df) = {s. Str s \<in> set (map (\<lambda>r. get r c) (rows df))}"
  unfolding group_keys_def by (simp only: set_sort set_remdups set_text_values)

lemma group_keys_distinct: "distinct (group_keys c df)"
  by (simp add: group_keys_def)

lemma length_filter_disjoint:
  assumes "\<And>x. x \<in> set xs \<Longrightarrow> \<not> (A x \<and> B x)"
  shows "length (filter A xs) + length (filter B xs) = length (filter (\<lambda>x. A x \<or> B x) xs)"
  using assms by (induction xs) auto

lemma sum_counts_by_key:
  assumes "distinct ss"
  shows "sum_list (map (\<lambda>s. length (filter (\<lambda>x. P x \<and> g x = Str s) xs)) ss) =
         length (filter (\<lambda>x. P x \<and> g x \<in> Str ` set ss) xs)"
  using assms
proof (induction ss)
  case Nil
  then show ?case by simp
next
  case (Cons s ss)
  then have d: "s \<notin> set ss" and ih: "sum_list (map (\<lambda>s. length (filter (\<lambda>x. P x \<and> g x = Str s) xs)) ss) =
         length (filter (\<lambda>x. P x \<and> g x \<in> Str ` set ss) xs)"
    by simp_all
  have "length (filter (\<lambda>x. P x \<and> g x = Str s) xs) +
        length (filter (\<lambda>x. P x \<and> g x \<in> Str ` set ss) xs) =
        length (filter (\<lambda>x. (P x \<and> g x = Str s) \<or> (P x \<and> g x \<in> Str ` set ss)) xs)"
    by (rule length_filter_disjoint) (use d in auto)
  also have "\<dots> = length (filter (\<lambda>x. P x \<and> g x \<in> Str ` set (s # ss)) xs)"
    by (rule arg_cong [where f = length], rule filter_cong) auto
  finally show ?case by (simp add: ih)
qed

lemma sum_list_concat_nat: "sum_list (concat xss) = sum_list (map sum_list xss)" for xss :: "nat list list"
  by (induction xss) simp_all

lemma sum_counts_by_two_keys:
  assumes "distinct bs" and "distinct ss"
    and "\<And>x. x \<in> set xs \<Longrightarrow> f x \<in> Str ` set bs \<and> g x \<in> Str ` set ss"
  shows "sum_list (map (\<lambda>(b, s, n). n)
           (concat (map (\<lambda>b. map (\<lambda>s. (b, s, length (filter (\<lambda>x. f x = Str b \<and> g x = Str s) xs))) ss) bs))) =
         length xs"
proof -
  have "sum_list (map (\<lambda>(b, s, n). n)
           (concat (map (\<lambda>b. map (\<lambda>s. (b, s, length (filter (\<lambda>x. f x = Str b \<and> g x = Str s) xs))) ss) bs))) =
        sum_list (map (\<lambda>b. sum_list (map (\<lambda>s. length (filter (\<lambda>x. f x = Str b \<and> g x = Str s) xs)) ss)) bs)"
    by (simp add: map_concat sum_list_concat_nat comp_def)
  also have "\<dots> = sum_list (map (\<lambda>b. length (filter (\<lambda>x. f x = Str b \<and> g x \<in> Str ` set ss) xs)) bs)"
    by (simp only: sum_counts_by_key [OF assms(2)])
  also have "\<dots> = sum_list (map (\<lambda>b. length (filter (\<lambda>x. g x \<in> Str ` set ss \<and> f x = Str b) xs)) bs)"
    by (simp only: conj_commute)
  also have "\<dots> = length (filter (\<lambda>x. g x \<in> Str ` set ss \<and> f x \<in> Str ` set bs) xs)"
    by (rule sum_counts_by_key [OF assms(1)])
  also have "\<dots> = length xs"
    using assms(3) by (simp add: filter_True)
  finally show ?thesis .
qed

lemma labels_distinct: "distinct labels"
  by (simp add: labels_def)

lemma create_aging_distribution_sum:
  assumes "\<not> is_empty df" and "''Day'' \<in> set (columns df)" and "REASON \<in> set (columns df)"
    and "\<And>r. r \<in> set (rows df) \<Longrightarrow> \<exists>d s. get r ''Day'' = Num d \<and> 0 \<le> d \<and> get r REASON = Str s"
  shows "\<exists>counts p'. create_aging_distribution df = Inr (Some counts, p') \<and>
           sum_list (map (\<lambda>(b, s, n). n) counts) = length (rows df) \<and>
           list_all (\<lambda>(b, s, n). n = length (filter
              (\<lambda>r. age_bucket (get r ''Day'') = Str b \<and> get r REASON = Str s) (rows df))) counts"
proof -
  let ?df = "assign ''Age Bucket'' (\<lambda>r. age_bucket (get r ''Day'')) df"
  let ?f = "\<lambda>r. get r ''Age Bucket''" and ?g = "\<lambda>r. get r REASON"
  let ?n = "\<lambda>b s. length (filter (\<lambda>r. ?f r = Str b \<and> ?g r = Str s) (rows ?df))"
  let ?counts = "concat (map (\<lambda>b. map (\<lambda>s. (b, s, ?n b s)) (group_keys REASON ?df)) labels)"
  have res: "create_aging_distribution df = Inr (Some ?counts, ?df)"
    using assms(1-3)
    by (simp add: create_aging_distribution_def missing_columns_def set_columns_assign Let_def)
  have rows: "rows ?df = map (\<lambda>r. AList.update ''Age Bucket'' (age_bucket (get r ''Day'')) r) (rows df)"
    by (rule rows_assign)
  have keys: "?f x \<in> Str ` set labels \<and> ?g x \<in> Str ` set (group_keys REASON ?df)"
    if "x \<in> set (rows ?df)" for x
  proof -
    from that obtain r where r: "r \<in> set (rows df)"
      and x: "x = AList.update ''Age Bucket'' (age_bucket (get r ''Day'')) r"
      unfolding rows by auto
    from assms(4) [OF r] obtain d s where "get r ''Day'' = Num d" "0 \<le> d" "get r REASON = Str s"
      by blast
    then have "?f x \<in> Str ` set labels" and g: "?g x = Str s"
      by (simp_all add: x get_update age_bucket_label)
    moreover from g that have "s \<in> set (group_keys REASON ?df)"
      by (force simp: group_keys_set)
    ultimately show ?thesis by simp
  qed
  have "sum_list (map (\<lambda>(b, s, n). n) ?counts) = length (rows ?df)"
    by (rule sum_counts_by_two_keys [OF labels_distinct group_keys_distinct keys])
  then have sum: "sum_list (map (\<lambda>(b, s, n). n) ?counts) = length (rows df)"
    by (simp add: rows)
  have n: "?n b s = length (filter
              (\<lambda>r. age_bucket (get r ''Day'') = Str b \<and> get r REASON = Str s) (rows df))" for b s
    by (simp add: rows filter_map comp_def get_update)
  have "list_all (\<lambda>(b, s, n). n = length (filter
              (\<lambda>r. age_bucket (get r ''Day'') = Str b \<and> get r REASON = Str s) (rows df))) ?counts"
    by (auto simp: list_all_iff n)
  with res sum show ?thesis by blast
qed

lemma region_frame_columns:
  "region_frame sv df name = Inr p \<Longrightarrow> rows p \<noteq> [] \<Longrightarrow> columns p = ''Sr No.'' # required_cols"
  by (auto simp: region_frame_cases empty_frame_def split: if_splits)

lemma partition_columns:
  assumes "read_excel f = Inr df0" and "derive_columns parse now df0 = Inr df1"
    and "process_data read_excel parse sv now f = Inr (usa, ger)"
    and "p = usa \<or> p = ger" and "rows p \<noteq> []"
  shows "columns p = ''Sr No.'' # required_cols"
  using assms(4,5) process_data_Inr [OF assms(1-3)] region_frame_columns by blast

lemma partition_Reason:
  assumes "sorts_descending sv" and "read_excel f = Inr df0"
    and "derive_columns parse now df0 = Inr df1"
    and "process_data read_excel parse sv now f = Inr (usa, ger)"
    and "list_all (\<lambda>r. text_or_null (get r REASON)) (rows df0)"
    and "r \<in> set (rows usa) \<union> set (rows ger)"
  shows "\<exists>s. get r REASON = Str s"
proof -
  let ?rs = "filter (\<lambda>r. gt (get r ''Day'') 10) (rows df1)"
  from assms(6) obtain name where
    "r \<in> set (insert_sr_no (sv ''Day'' (map (project required_cols)
           (filter (\<lambda>r. get r ''Region'' = Str name) ?rs))))"
    using partition_rows [OF assms(1-4)] by auto
  then obtain i x where x: "x \<in> set (sv ''Day'' (map (project required_cols)
           (filter (\<lambda>r. get r ''Region'' = Str name) ?rs)))"
    and r: "r = (''Sr No.'', Num (int i)) # x"
    using in_insert_sr_no by blast
  from x obtain r1 where "r1 \<in> set (rows df1)" and x1: "x = project required_cols r1"
    by (auto simp: sorts_descending_set [OF assms(1)])
  then obtain r0 where r0: "r0 \<in> set (rows df0)" and r1: "r1 = derive_row parse now r0"
    by (auto simp: derive_columns_rows [OF assms(3)])
  from r0 assms(5) have "text_or_null (get r0 REASON)"
    by (simp add: list_all_iff)
  then have "\<exists>s. get r1 REASON = Str s"
    unfolding r1 derive_row_Reason
    by (cases "get r0 REASON") (simp_all add: fillna_def replace_value_def)
  moreover have "get r REASON = get r1 REASON"
    by (simp add: r x1 get_Cons get_project required_cols_def)
  ultimately show ?thesis by simp
qed

text \<open>
  Claim C7.  For every partition the age-bucket by reason histogram uses the four
  half-open buckets \<open>[0, 30)\<close>, \<open>[30, 60)\<close>, \<open>[60, 90)\<close> and \<open>[90, \<infinity>)\<close> over
  \<open>Day\<close>; a \<open>Day\<close> of exactly 30 falls in the second; each count is the number of
  rows of the partition in that bucket with that reason; and the counts add up to the
  number of rows of the partition.  For an empty partition there is no histogram.
\<close>

theorem C7_age_bucket_histogram:
  assumes "sorts_descending sv" and "read_excel f = Inr df0"
    and "derive_columns parse now df0 = Inr df1"
    and "process_data read_excel parse sv now f = Inr (usa, ger)"
    and "list_all (\<lambda>r. text_or_null (get r REASON)) (rows df0)"
    and "p = usa \<or> p = ger"
  shows "(\<forall>d. age_bucket (Num d) =
            (if 0 \<le> d \<and> d < 30 then Str ''0-30 days''
             else if 30 \<le> d \<and> d < 60 then Str ''31-60 days''
             else if 60 \<le> d \<and> d < 90 then Str ''61-90 days''
             else if 90 \<le> d then Str ''>90 days''
             else NaN)) \<and>
         age_bucket (Num 29) = Str ''0-30 days'' \<and>
         age_bucket (Num 30) = Str ''31-60 days'' \<and>
         (rows p = [] \<longrightarrow> create_aging_distribution p = Inr (None, p)) \<and>
         (rows p \<noteq> [] \<longrightarrow>
            (\<exists>counts p'. create_aging_distribution p = Inr (Some counts, p') \<and>
               sum_list (map (\<lambda>(b, s, n). n) counts) = length (rows p) \<and>
               list_all (\<lambda>(b, s, n). n = length (filter
                  (\<lambda>r. age_bucket (get r ''Day'') = Str b \<and> get r REASON = Str s) (rows p))) counts))"
proof -
  have e: "create_aging_distribution p = Inr (None, p)" if "rows p = []"
    using that by (simp add: create_aging_distribution_def is_empty_def)
  have h: "\<exists>counts p'. create_aging_distribution p = Inr (Some counts, p') \<and>
               sum_list (map (\<lambda>(b, s, n). n) counts) = length (rows p) \<and>
               list_all (\<lambda>(b, s, n). n = length (filter
                  (\<lambda>r. age_bucket (get r ''Day'') = Str b \<and> get r REASON = Str s) (rows p))) counts"
    if ne: "rows p \<noteq> []"
  proof (rule create_aging_distribution_sum)
    note c = partition_columns [OF assms(2-4,6) ne]
    show "\<not> is_empty p" using ne c by (simp add: is_empty_def)
    show "''Day'' \<in> set (columns p)" by (simp add: c required_cols_def)
    show "REASON \<in> set (columns p)" by (simp add: c required_cols_def)
    fix r assume "r \<in> set (rows p)"
    with assms(6) have r: "r \<in> set (rows usa) \<union> set (rows ger)" by auto
    from partition_Day [OF assms(1-4) r] partition_Reason [OF assms(1-5) r]
    obtain d s where "get r ''Day'' = Num d" "10 < d" "get r REASON = Str s" by blast
    then show "\<exists>d s. get r ''Day'' = Num d \<and> 0 \<le> d \<and> get r REASON = Str s" by simp
  qed
  from e h show ?thesis
    by (simp add: age_bucket_Num)
qed

lemma example_text: "list_all (\<lambda>r. text_or_null (get r REASON)) (rows example_sheet)"
  by (simp add: example_sheet_def example_row_def get_def)

lemma example_usa_length:
  assumes "sorts_descending sv"
    and "derive_columns example_parse example_now example_sheet = Inr df1"
    and "process_data example_read example_parse sv example_now () = Inr (usa, ger)"
  shows "length (rows usa) = 4"
proof -
  have "size (mset (map tl (rows usa))) =
        size (mset (map (\<lambda>r. (get r ''Day'', get r ''LIPA No. / Delivery''))
           (map (project required_cols)
             (filter (\<lambda>r. get r ''Region'' = Str ''USA'')
               (filter (\<lambda>r. gt (get r ''Day'') 10) (rows df1))))))"
    unfolding partition_mset(1) [OF assms(1) example_read_sheet assms(2,3)] by simp
  then show ?thesis
    by (simp only: example_usa_unsorted [OF assms(2)] size_mset length_map) simp
qed

theorem C7_age_bucket_histogram_witness:
  "sorts_descending sort_values_stable \<and> example_read () = Inr example_sheet \<and>
   list_all (\<lambda>r. text_or_null (get r REASON)) (rows example_sheet) \<and>
   (\<exists>df1 usa ger counts p'.
      derive_columns example_parse example_now example_sheet = Inr df1 \<and>
      process_data example_read example_parse sort_values_stable example_now () = Inr (usa, ger) \<and>
      length (rows usa) = 4 \<and>
      create_aging_distribution usa = Inr (Some counts, p') \<and>
      sum_list (map (\<lambda>(b, s, n). n) counts) = 4)"
proof -
  obtain df1 where d: "derive_columns example_parse example_now example_sheet = Inr df1"
    using example_derived by blast
  note r = example_read_sheet
  obtain usa ger where
    p: "process_data example_read example_parse sort_values_stable example_now () = Inr (usa, ger)"
    using example_processed by blast
  note l = example_usa_length [OF sorts_descending_stable d p]
  then have ne: "rows usa \<noteq> []" by auto
  from C7_age_bucket_histogram [OF sorts_descending_stable r d p example_text, of usa] ne
  obtain counts p' where "create_aging_distribution usa = Inr (Some counts, p')"
    and "sum_list (map (\<lambda>(b, s, n). n) counts) = length (rows usa)"
    by blast
  with sorts_descending_stable r example_text d p l show ?thesis
    by (intro conjI exI) (assumption | simp)+
qed

subsection \<open>Headline counts\<close>

lemma view_insert_sr_no:
  assumes "set cs \<subseteq> set required_cols"
  shows "map (\<lambda>r. map (get r) cs) (insert_sr_no xs) = map (\<lambda>r. map (get r) cs) xs"
proof (rule nth_equalityI)
  show "length (map (\<lambda>r. map (get r) cs) (insert_sr_no xs)) = length (map (\<lambda>r. map (get r) cs) xs)"
    by (simp add: length_insert_sr_no)
next
  fix i assume "i < length (map (\<lambda>r. map (get r) cs) (insert_sr_no xs))"
  then have i: "i < length xs" by (simp add: length_insert_sr_no)
  have "get (insert_sr_no xs ! i) c = get (xs ! i) c" if "c \<in> set cs" for c
  proof -
    from that assms have "c \<noteq> ''Sr No.''" by (auto simp: required_cols_def)
    with i show ?thesis by (rule get_insert_sr_no)
  qed
  with i show "map (\<lambda>r. map (get r) cs) (insert_sr_no xs) ! i = map (\<lambda>r. map (get r) cs) xs ! i"
    by (simp add: length_insert_sr_no)
qed

lemma view_project:
  assumes "set cs \<subseteq> set required_cols"
  shows "map (get (project required_cols r)) cs = map (get r) cs"
  using assms by (auto simp: get_project)

lemma partition_view:
  assumes "sorts_descending sv" and "read_excel f = Inr df0"
    and "derive_columns parse now df0 = Inr df1"
    and "process_data read_excel parse sv now f = Inr (usa, ger)"
    and "set cs \<subseteq> set required_cols"
  shows "mset (map (\<lambda>r. map (get r) cs) (rows usa)) =
         mset (map (\<lambda>r. map (get r) cs)
           (filter (\<lambda>r. get r ''Region'' = Str ''USA'') (filter (\<lambda>r. gt (get r ''Day'') 10) (rows df1))))"
proof -
  let ?F = "filter (\<lambda>r. get r ''Region'' = Str ''USA'') (filter (\<lambda>r. gt (get r ''Day'') 10) (rows df1))"
  let ?xs = "sv ''Day'' (map (project required_cols) ?F)"
  have "map (\<lambda>r. map (get r) cs) (rows usa) = map (\<lambda>r. map (get r) cs) ?xs"
    unfolding partition_rows(1) [OF assms(1-4)] by (rule view_insert_sr_no [OF assms(5)])
  then have "mset (map (\<lambda>r. map (get r) cs) (rows usa)) =
             image_mset (\<lambda>r. map (get r) cs) (mset ?xs)"
    by simp
  also have "\<dots> = image_mset (\<lambda>r. map (get r) cs) (mset (map (project required_cols) ?F))"
    by (simp only: sorts_descending_mset [OF assms(1)])
  also have "\<dots> = mset (map (\<lambda>r. map (get r) cs) ?F)"
    by (simp add: comp_def view_project [OF assms(5)] multiset.map_comp)
  finally show ?thesis .
qed

lemma length_filter_mset_eq:
  assumes "mset xs = mset ys"
  shows "length (filter P xs) = length (filter P ys)"
proof -
  have "length (filter P xs) = size (filter_mset P (mset xs))"
    by (simp flip: mset_filter)
  also have "\<dots> = size (filter_mset P (mset ys))" by (simp only: assms)
  also have "\<dots> = length (filter P ys)"
    by (simp flip: mset_filter)
  finally show ?thesis .
qed

lemma partition_count:
  assumes "sorts_descending sv" and "read_excel f = Inr df0"
    and "derive_columns parse now df0 = Inr df1"
    and "process_data read_excel parse sv now f = Inr (usa, ger)"
    and "set cs \<subseteq> set required_cols"
  shows "length (filter (\<lambda>r. Q (map (get r) cs)) (rows usa)) =
         length (filter (\<lambda>r. Q (map (get r) cs))
           (filter (\<lambda>r. get r ''Region'' = Str ''USA'') (filter (\<lambda>r. gt (get r ''Day'') 10) (rows df1))))"
proof -
  have "length (filter (\<lambda>r. Q (map (get r) cs)) xs) =
        length (filter Q (map (\<lambda>r. map (get r) cs) xs))" for xs :: "row list"
    by (simp add: filter_map comp_def)
  then show ?thesis
    using length_filter_mset_eq [OF partition_view [OF assms], of Q] by simp
qed

lemma derive_row_Process_status:
  "get (derive_row parse now r) ''Process status'' = get r ''Process status''"
  by (simp add: derive_row_def Let_def get_update)

lemma example_statuses:
  "map (\<lambda>r. get r ''Process status'') (rows example_sheet) =
     [Str ''In process'', Str ''In process'', Str ''Closed'', Str ''In process'', Str ''In process'',
      Str ''In process'', Str ''In process'', Str ''In process'']"
  by (simp add: example_sheet_def example_row_def get_def)

lemma example_dates:
  "map (to_datetime example_parse)
     [Str ''2025-06-05 00:00:00'', Str ''2025-06-05 00:00:00'', Str ''2024-06-01 00:00:00'',
      Str ''2025-06-10 00:00:00'', Str ''not a date'', Str ''2025-05-01 00:00:00'',
      Str ''2025-05-21 00:00:00'', Str ''2025-04-01 00:00:00''] =
     [Time \<lparr>year = 2025, month = 6, day = 5, nanos = 0, utc_offset = None\<rparr>,
      Time \<lparr>year = 2025, month = 6, day = 5, nanos = 0, utc_offset = None\<rparr>,
      Time \<lparr>year = 2024, month = 6, day = 1, nanos = 0, utc_offset = None\<rparr>,
      Time \<lparr>year = 2025, month = 6, day = 10, nanos = 0, utc_offset = None\<rparr>,
      NaT,
      Time \<lparr>year = 2025, month = 5, day = 1, nanos = 0, utc_offset = None\<rparr>,
      Time \<lparr>year = 2025, month = 5, day = 21, nanos = 0, utc_offset = None\<rparr>,
      Time \<lparr>year = 2025, month = 4, day = 1, nanos = 0, utc_offset = None\<rparr>]"
  by (simp add: to_datetime_def example_parse_def)

lemma example_kpi_view:
  assumes "derive_columns example_parse example_now example_sheet = Inr df1"
  shows "map (\<lambda>r. (get r ''Day'', get r ''Region'', get r CREATED_ON, get r ''Process status''))
           (rows df1) =
     [(Num 15, Str ''USA'', Time \<lparr>year = 2025, month = 6, day = 5, nanos = 0, utc_offset = None\<rparr>, Str ''In process''),
      (Num 15, Str ''USA'', Time \<lparr>year = 2025, month = 6, day = 5, nanos = 0, utc_offset = None\<rparr>, Str ''In process''),
      (Num 384, Str ''USA'', Time \<lparr>year = 2024, month = 6, day = 1, nanos = 0, utc_offset = None\<rparr>, Str ''Closed''),
      (Num 10, Str ''USA'', Time \<lparr>year = 2025, month = 6, day = 10, nanos = 0, utc_offset = None\<rparr>, Str ''In process''),
      (NaN, Str ''USA'', NaT, Str ''In process''),
      (Num 50, Str ''Germany'', Time \<lparr>year = 2025, month = 5, day = 1, nanos = 0, utc_offset = None\<rparr>, Str ''In process''),
      (Num 30, Str ''Germany'', Time \<lparr>year = 2025, month = 5, day = 21, nanos = 0, utc_offset = None\<rparr>, Str ''In process''),
      (Num 80, Str ''USA'', Time \<lparr>year = 2025, month = 4, day = 1, nanos = 0, utc_offset = None\<rparr>, Str ''In process'')]"
proof -
  have c: "map (\<lambda>r. get r CREATED_ON) (rows df1) =
        map (to_datetime example_parse) (map (\<lambda>r. get r CREATED_ON) (rows example_sheet))"
    by (simp add: derive_columns_rows [OF assms] derive_row_Created comp_def)
  have s: "map (\<lambda>r. get r ''Process status'') (rows df1) =
        map (\<lambda>r. get r ''Process status'') (rows example_sheet)"
    by (simp add: derive_columns_rows [OF assms] derive_row_Process_status comp_def)
  have "map (\<lambda>r. (get r ''Day'', get r ''Region'', get r CREATED_ON, get r ''Process status''))
           (rows df1) =
        zip (map (\<lambda>r. get r ''Day'') (rows df1))
          (zip (map (\<lambda>r. get r ''Region'') (rows df1))
            (zip (map (\<lambda>r. get r CREATED_ON) (rows df1))
                 (map (\<lambda>r. get r ''Process status'') (rows df1))))"
    by (simp add: zip_map_map zip_same_conv_map)
  then show ?thesis
    by (simp only: example_days [OF assms] example_regions [OF assms] c s example_created
          example_dates example_statuses) simp
qed

lemma example_status_closed:
  "status_closed (Str ''Closed'')" "\<not> status_closed (Str ''In process'')"
  by code_simp+

text \<open>
  Claim C1 (the code departs from it).  \<open>create_kpi_cards\<close> counts as "closed this
  month" the rows whose creation \<^emph>\<open>month\<close> is the current month and whose process status
  contains \<open>closed\<close> or \<open>completed\<close>, whatever the year of creation: \<open>current_year\<close>
  is computed and never compared.  In the USA partition of the example, read on
  2025-06-20, the row \<open>D3\<close> was created on 2024-06-01 and is \<open>Closed\<close>: the view
  counts 1, where no row was created in June 2025 and closed.
\<close>

theorem C1_closed_this_month_ignores_year:
  "\<exists>df1 usa ger k.
     derive_columns example_parse example_now example_sheet = Inr df1 \<and>
     process_data example_read example_parse sort_values_stable example_now () = Inr (usa, ger) \<and>
     create_kpi_cards example_now usa = Inr (Some k, usa) \<and>
     total_lipas k = 4 \<and>
     closed_this_month k = 1 \<and>
     length (filter (\<lambda>r. (case get r CREATED_ON of
                             Time t \<Rightarrow> month t = month example_now \<and> year t = year example_now
                           | _ \<Rightarrow> False) \<and>
                         status_closed (get r ''Process status'')) (rows usa)) = 0"
proof -
  obtain df1 where d: "derive_columns example_parse example_now example_sheet = Inr df1"
    using example_derived by blast
  obtain usa ger where
    p: "process_data example_read example_parse sort_values_stable example_now () = Inr (usa, ger)"
    using example_processed by blast
  note l = example_usa_length [OF sorts_descending_stable d p]
  then have ne: "rows usa \<noteq> []" by auto
  note c = partition_columns [OF example_read_sheet d p disjI1 [OF refl] ne]
  let ?k = "\<lparr>total_lipas = length (rows usa),
      lipas_30_days = length (filter (\<lambda>r. gt (get r ''Day'') 30) (rows usa)),
      lipas_60_days = length (filter (\<lambda>r. gt (get r ''Day'') 60) (rows usa)),
      closed_this_month =
        length (filter (\<lambda>r. status_closed (get r ''Process status''))
          (filter (\<lambda>r. dt_month_is (get r CREATED_ON) (month example_now)) (rows usa))),
      avg_aging_days = mean (map (\<lambda>r. get r ''Day'') (rows usa))\<rparr>"
  have k: "create_kpi_cards example_now usa = Inr (Some ?k, usa)"
    using ne by (simp add: create_kpi_cards_def is_empty_def c missing_columns_def required_cols_def Let_def)
  let ?F = "filter (\<lambda>r. get r ''Region'' = Str ''USA'') (filter (\<lambda>r. gt (get r ''Day'') 10) (rows df1))"
  let ?v = "\<lambda>r. (get r ''Day'', get r ''Region'', get r CREATED_ON, get r ''Process status'')"
  have count: "length (filter (\<lambda>r. Q (get r CREATED_ON) (get r ''Process status'')) (rows usa)) =
        length (filter (\<lambda>(d, g, t, s). gt d 10 \<and> g = Str ''USA'' \<and> Q t s) (map ?v (rows df1)))"
    for Q
  proof -
    have "length (filter (\<lambda>r. Q (get r CREATED_ON) (get r ''Process status'')) (rows usa)) =
          length (filter (\<lambda>r. Q (get r CREATED_ON) (get r ''Process status'')) ?F)"
      using partition_count [OF sorts_descending_stable example_read_sheet d p,
          of "[CREATED_ON, ''Process status'']" "\<lambda>v. Q (v ! 0) (v ! 1)"]
      by (simp add: required_cols_def)
    also have "\<dots> = length (filter (\<lambda>(d, g, t, s). gt d 10 \<and> g = Str ''USA'' \<and> Q t s) (map ?v (rows df1)))"
      by (simp add: filter_map comp_def conj_commute conj_left_commute)
    finally show ?thesis .
  qed
  have "closed_this_month ?k =
        length (filter (\<lambda>r. dt_month_is (get r CREATED_ON) (month example_now) \<and>
                             status_closed (get r ''Process status'')) (rows usa))"
    by (simp add: conj_commute)
  also have "\<dots> = 1"
    unfolding count [of "\<lambda>t s. dt_month_is t (month example_now) \<and> status_closed s"]
      example_kpi_view [OF d]
    by (simp add: example_now_def example_status_closed)
  finally have one: "closed_this_month ?k = 1" .
  have zero: "length (filter (\<lambda>r. (case get r CREATED_ON of
                             Time t \<Rightarrow> month t = month example_now \<and> year t = year example_now
                           | _ \<Rightarrow> False) \<and>
                         status_closed (get r ''Process status'')) (rows usa)) = 0"
    unfolding count [of "\<lambda>t s. (case t of
                             Time t \<Rightarrow> month t = month example_now \<and> year t = year example_now
                           | _ \<Rightarrow> False) \<and> status_closed s"]
      example_kpi_view [OF d]
    by (simp add: example_now_def example_status_closed)
  have tot: "total_lipas ?k = 4" by (simp add: l)
  from d p k tot one zero show ?thesis
    by (intro exI conjI) assumption+
qed

subsection \<open>What a view leaves of the partition's frame\<close>

lemma columns_assign_new:
  "c \<notin> set (columns df) \<Longrightarrow> columns (assign c f df) = columns df @ [c]"
  by (simp add: assign_def)

lemma create_kpi_cards_frame:
  assumes "create_kpi_cards now df = Inr (out, df')"
  shows "df' = df"
  using assms
  by (auto simp: create_kpi_cards_def Let_def split: if_splits list.splits)

lemma create_aging_trend_frame:
  assumes "create_aging_trend df = Inr (out, df')"
  shows "df' = df"
  using assms
  by (auto simp: create_aging_trend_def Let_def split: if_splits list.splits)

lemma create_aging_trend_ok:
  assumes "\<not> is_empty df"
    and "set [CREATED_ON, ''LIPA No. / Delivery'', ''Day''] \<subseteq> set (columns df)"
  shows "\<exists>out. create_aging_trend df = Inr (Some out, df)"
  using assms by (simp add: create_aging_trend_def missing_columns_def Let_def)

lemma create_aging_distribution_frame:
  assumes "\<not> is_empty df" and "''Day'' \<in> set (columns df)" and "REASON \<in> set (columns df)"
  shows "\<exists>out. create_aging_distribution df =
           Inr (Some out, assign ''Age Bucket'' (\<lambda>r. age_bucket (get r ''Day'')) df)"
  using assms
  by (simp add: create_aging_distribution_def missing_columns_def set_columns_assign Let_def)

lemma create_heatmap_frame:
  assumes "\<not> is_empty df"
    and "set [''Material number'', ''LIPA No. / Delivery'', REASON] \<subseteq> set (columns df)"
  shows "\<exists>out. create_heatmap df =
           Inr (Some out, assign ''Model'' (\<lambda>r. Str (take 4 (astype_str (get r ''Material number'')))) df)"
  using assms
  by (simp add: create_heatmap_def missing_columns_def set_columns_assign Let_def)

text \<open>
  Claim C2 (the code departs from it).  The headline counts and the weekly trend leave
  the partition's frame as it is; \<open>create_aging_trend\<close> works on a copy.
  \<open>create_aging_distribution\<close> and \<open>create_heatmap\<close> assign their derived column to
  the frame they are given, which is the partition itself: after the call the partition
  of the example has the further column \<open>Age Bucket\<close>, respectively \<open>Model\<close>, in its
  columns and in every row, and that is the frame the page goes on to show and export.
\<close>

theorem C2_views_add_columns_to_partition:
  "\<exists>df1 usa ger k w h usa' m usa''.
     derive_columns example_parse example_now example_sheet = Inr df1 \<and>
     process_data example_read example_parse sort_values_stable example_now () = Inr (usa, ger) \<and>
     columns usa = ''Sr No.'' # required_cols \<and>
     create_kpi_cards example_now usa = Inr (Some k, usa) \<and>
     create_aging_trend usa = Inr (Some w, usa) \<and>
     create_aging_distribution usa = Inr (Some h, usa') \<and>
     columns usa' = ''Sr No.'' # required_cols @ [''Age Bucket''] \<and>
     map (\<lambda>r. get r ''Age Bucket'') (rows usa') = map (\<lambda>r. age_bucket (get r ''Day'')) (rows usa) \<and>
     usa' \<noteq> usa \<and>
     create_heatmap usa' = Inr (Some m, usa'') \<and>
     columns usa'' = ''Sr No.'' # required_cols @ [''Age Bucket'', ''Model''] \<and>
     usa'' \<noteq> usa"
proof -
  obtain df1 where d: "derive_columns example_parse example_now example_sheet = Inr df1"
    using example_derived by blast
  obtain usa ger where
    p: "process_data example_read example_parse sort_values_stable example_now () = Inr (usa, ger)"
    using example_processed by blast
  note l = example_usa_length [OF sorts_descending_stable d p]
  then have ne: "rows usa \<noteq> []" by auto
  note c = partition_columns [OF example_read_sheet d p disjI1 [OF refl] ne]
  from ne c have e: "\<not> is_empty usa" by (simp add: is_empty_def)
  let ?usa' = "assign ''Age Bucket'' (\<lambda>r. age_bucket (get r ''Day'')) usa"
  let ?usa'' = "assign ''Model'' (\<lambda>r. Str (take 4 (astype_str (get r ''Material number'')))) ?usa'"
  obtain k where k: "create_kpi_cards example_now usa = Inr (Some k, usa)"
    using e by (simp add: create_kpi_cards_def c missing_columns_def required_cols_def Let_def)
  obtain w where w: "create_aging_trend usa = Inr (Some w, usa)"
    using create_aging_trend_ok [OF e] by (auto simp: c required_cols_def)
  obtain h where h: "create_aging_distribution usa = Inr (Some h, ?usa')"
    using create_aging_distribution_frame [OF e] by (auto simp: c required_cols_def)
  have c': "columns ?usa' = ''Sr No.'' # required_cols @ [''Age Bucket'']"
    by (simp add: columns_assign_new c required_cols_def)
  have b: "map (\<lambda>r. get r ''Age Bucket'') (rows ?usa') = map (\<lambda>r. age_bucket (get r ''Day'')) (rows usa)"
    by (simp add: rows_assign get_update comp_def)
  from c c' have n': "?usa' \<noteq> usa" by auto
  have e': "\<not> is_empty ?usa'"
    using ne by (simp add: is_empty_def c' rows_assign)
  obtain m where m: "create_heatmap ?usa' = Inr (Some m, ?usa'')"
    using create_heatmap_frame [OF e'] by (auto simp: c' required_cols_def)
  have c'': "columns ?usa'' = ''Sr No.'' # required_cols @ [''Age Bucket'', ''Model'']"
    by (simp add: columns_assign_new c' required_cols_def)
  from c c'' have n'': "?usa'' \<noteq> usa" by auto
  from d p c k w h c' b n' m c'' n'' show ?thesis
    by (intro exI conjI) assumption+
qed

end
